theory Spec2Isabelle
  imports Complex_Main "HOL-Library.Char_ord" "HOL-Library.List_Lexorder" "HOL-Library.AList"
begin

section \<open>The ledger program (chaincode with histories and traceability)\<close>

text \<open>
  The chaincode is a Go program over the Fabric world state, a store from keys to JSON
  documents. The structs of the source are records with the source's field names; as several
  structs share field names (\<open>ID\<close>, \<open>Status\<close>, \<open>History\<close>), fields are written qualified
  (\<open>Waste.ID\<close>, \<open>Extraction.ID\<close>).

  Go strings are byte strings (\<open>string\<close>, a \<open>char list\<close>). A \<open>float64\<close> is a finite value
  (a real number; the source only stores and prints quantities, it never computes with them, and
  the two zeros are not told apart), a NaN or an infinity.
\<close>

datatype float64 = Finite real | NaN | PosInf | NegInf

record History =
  Timestamp :: string
  Action :: string
  Actor :: string
  Details :: string

record Waste =
  ID :: string
  Type :: string
  Quantity :: float64
  HarvestDate :: string
  Status :: string
  Owner :: string
  Farm :: string
  Location :: string
  CreatedAt :: string
  UpdatedAt :: string
  History :: "History list"

record Extraction =
  ID :: string
  WasteID :: string
  ProductType :: string
  Quantity :: float64
  Quality :: string
  ExtractionDate :: string
  Processor :: string
  Status :: string
  CreatedAt :: string
  History :: "History list"

record Recycling =
  ID :: string
  WasteID :: string
  RecycledProduct :: string
  Quantity :: float64
  Method :: string
  RecyclingDate :: string
  Recycler :: string
  Status :: string
  CreatedAt :: string
  History :: "History list"

text \<open>
  \<open>TraceabilityInfo\<close> holds three pointers that may be nil (\<open>option\<close>) and the merged chain.
\<close>

record TraceabilityInfo =
  Waste :: "Waste option"
  Extraction :: "Extraction option"
  Recycling :: "Recycling option"
  Chain :: "History list"

subsection \<open>Errors\<close>

text \<open>
  The errors the chaincode builds with \<open>fmt.Errorf\<close>, one constructor per message, and the
  error of \<open>json.Marshal\<close> on a float that JSON cannot write.
\<close>

datatype error =
    WasteAlreadyExists string            \<comment> \<open>\<open>waste %s already exists\<close>\<close>
  | WasteDoesNotExist string             \<comment> \<open>\<open>waste %s does not exist\<close>\<close>
  | SourceWasteNotFound error            \<comment> \<open>\<open>source waste not found: %v\<close>\<close>
  | ExtractionAlreadyExists string       \<comment> \<open>\<open>extraction %s already exists\<close>\<close>
  | RecyclingAlreadyExists string        \<comment> \<open>\<open>recycling %s already exists\<close>\<close>
  | UnsupportedValue                     \<comment> \<open>\<open>json: unsupported value\<close> (NaN, +Inf, -Inf)\<close>

subsection \<open>JSON documents\<close>

text \<open>
  A stored value is the JSON text that \<open>json.Marshal\<close> wrote for one of the three structs.
  Marshalling followed by unmarshalling into the same struct gives the struct back (for
  strings that are valid UTF-8; \<open>json.Marshal\<close> replaces other bytes), so a document is
  represented by the struct it was written from. \<open>json.Marshal\<close> fails on a quantity that
  is not finite.

  \<open>json.Unmarshal\<close> into another struct keeps the fields whose JSON names both structs have
  (\<open>id\<close>, \<open>quantity\<close>, \<open>status\<close>, \<open>createdAt\<close>, \<open>history\<close>, and \<open>wasteId\<close> between
  extraction and recycling) and leaves every other field at its zero value.
\<close>

datatype doc = WasteDoc Waste | ExtractionDoc Extraction | RecyclingDoc Recycling

fun isFinite :: "float64 \<Rightarrow> bool" where
  "isFinite (Finite x) = True"
| "isFinite NaN = False"
| "isFinite PosInf = False"
| "isFinite NegInf = False"

definition marshalWaste :: "Waste \<Rightarrow> error + doc" where
  "marshalWaste w = (if isFinite (Waste.Quantity w) then Inr (WasteDoc w) else Inl UnsupportedValue)"

definition marshalExtraction :: "Extraction \<Rightarrow> error + doc" where
  "marshalExtraction e =
     (if isFinite (Extraction.Quantity e) then Inr (ExtractionDoc e) else Inl UnsupportedValue)"

definition marshalRecycling :: "Recycling \<Rightarrow> error + doc" where
  "marshalRecycling r =
     (if isFinite (Recycling.Quantity r) then Inr (RecyclingDoc r) else Inl UnsupportedValue)"

fun unmarshalWaste :: "doc \<Rightarrow> Waste" where
  "unmarshalWaste (WasteDoc w) = w"
| "unmarshalWaste (ExtractionDoc e) =
     \<lparr>Waste.ID = Extraction.ID e, Type = [], Quantity = Extraction.Quantity e, HarvestDate = [],
      Status = Extraction.Status e, Owner = [], Farm = [], Location = [],
      CreatedAt = Extraction.CreatedAt e, UpdatedAt = [], History = Extraction.History e\<rparr>"
| "unmarshalWaste (RecyclingDoc r) =
     \<lparr>Waste.ID = Recycling.ID r, Type = [], Quantity = Recycling.Quantity r, HarvestDate = [],
      Status = Recycling.Status r, Owner = [], Farm = [], Location = [],
      CreatedAt = Recycling.CreatedAt r, UpdatedAt = [], History = Recycling.History r\<rparr>"

fun unmarshalExtraction :: "doc \<Rightarrow> Extraction" where
  "unmarshalExtraction (ExtractionDoc e) = e"
| "unmarshalExtraction (WasteDoc w) =
     \<lparr>Extraction.ID = Waste.ID w, WasteID = [], ProductType = [], Quantity = Waste.Quantity w,
      Quality = [], ExtractionDate = [], Processor = [], Status = Waste.Status w,
      CreatedAt = Waste.CreatedAt w, History = Waste.History w\<rparr>"
| "unmarshalExtraction (RecyclingDoc r) =
     \<lparr>Extraction.ID = Recycling.ID r, WasteID = Recycling.WasteID r, ProductType = [],
      Quantity = Recycling.Quantity r, Quality = [], ExtractionDate = [], Processor = [],
      Status = Recycling.Status r, CreatedAt = Recycling.CreatedAt r,
      History = Recycling.History r\<rparr>"

fun unmarshalRecycling :: "doc \<Rightarrow> Recycling" where
  "unmarshalRecycling (RecyclingDoc r) = r"
| "unmarshalRecycling (WasteDoc w) =
     \<lparr>Recycling.ID = Waste.ID w, WasteID = [], RecycledProduct = [], Quantity = Waste.Quantity w,
      Method = [], RecyclingDate = [], Recycler = [], Status = Waste.Status w,
      CreatedAt = Waste.CreatedAt w, History = Waste.History w\<rparr>"
| "unmarshalRecycling (ExtractionDoc e) =
     \<lparr>Recycling.ID = Extraction.ID e, WasteID = Extraction.WasteID e, RecycledProduct = [],
      Quantity = Extraction.Quantity e, Method = [], RecyclingDate = [], Recycler = [],
      Status = Extraction.Status e, CreatedAt = Extraction.CreatedAt e,
      History = Extraction.History e\<rparr>"

subsection \<open>The world state\<close>

text \<open>
  The world state maps keys to documents. \<open>GetState\<close> reads a key, \<open>PutState\<close> writes one
  (replacing the value the key had), and \<open>GetStateByRange\<close> enumerates, in the byte order of
  the keys, the entries whose key is at least \<open>startKey\<close> and below \<open>endKey\<close>. The order on
  \<open>string\<close> is the lexicographic order on bytes.

  The calls of the stub are modelled as succeeding: an I/O failure of the peer is not a branch
  of the model. A transaction that returns an error commits nothing, so an operation returns
  either an error or the new world state. Within one transaction the chaincode never reads
  a key it has written before.
\<close>

type_synonym world = "(string \<times> doc) list"

definition GetState :: "world \<Rightarrow> string \<Rightarrow> doc option" where
  "GetState s key = map_of s key"

definition PutState :: "world \<Rightarrow> string \<Rightarrow> doc \<Rightarrow> world" where
  "PutState s key v = AList.update key v s"

definition GetStateByRange :: "world \<Rightarrow> string \<Rightarrow> string \<Rightarrow> (string \<times> doc) list" where
  "GetStateByRange s startKey endKey =
     filter (\<lambda>(k, v). startKey \<le> k \<and> k < endKey) (sort_key fst s)"

subsection \<open>Formatting\<close>

text \<open>
  \<open>fmt.Sprintf\<close> with \<open>%s\<close> copies a string; with \<open>%.2f\<close> it prints a float with two
  decimals, rounding the exact value to the nearest hundredth, ties to even.
\<close>

definition digit :: "nat \<Rightarrow> char" where
  "digit d = ''0123456789'' ! (d mod 10)"

fun decimal :: "nat \<Rightarrow> string" where
  "decimal n = (if n < 10 then [digit n] else decimal (n div 10) @ [digit (n mod 10)])"

definition roundHalfEven :: "real \<Rightarrow> int" where
  "roundHalfEven y =
     (let f = \<lfloor>y\<rfloor>; d = y - of_int f
      in if d < 1 / 2 then f else if 1 / 2 < d then f + 1 else if even f then f else f + 1)"

fun fmt2f :: "float64 \<Rightarrow> string" where
  "fmt2f (Finite x) =
     (let n = nat (roundHalfEven (\<bar>x\<bar> * 100))
      in (if x < 0 then ''-'' else []) @ decimal (n div 100) @ ''.''
           @ [digit (n div 10), digit n])"
| "fmt2f NaN = ''NaN''"
| "fmt2f PosInf = ''+Inf''"
| "fmt2f NegInf = ''-Inf''"

subsection \<open>Operations of the chaincode\<close>

text \<open>
  \<open>time.Now().Format(time.RFC3339)\<close> is read several times in one call; \<open>now i\<close> is the
  text of the \<open>i\<close>-th reading of the call, in the order of the source.
\<close>

type_synonym clock = "nat \<Rightarrow> string"

definition sampleWastes :: "clock \<Rightarrow> Waste list" where
  "sampleWastes now =
     [\<lparr>Waste.ID = ''waste1'', Type = ''Olive Branches'', Quantity = Finite 50.5,
       HarvestDate = ''2025-06-01'', Status = ''COLLECTED'', Owner = ''farmer1'',
       Farm = ''Olive Farm Alpha'', Location = ''Andalusia, Spain'',
       CreatedAt = now 0, UpdatedAt = now 1,
       History = [\<lparr>Timestamp = now 2, Action = ''CREATED'', Actor = ''farmer1'',
                   Details = ''Initial waste collection''\<rparr>]\<rparr>]"

fun putWastes :: "world \<Rightarrow> Waste list \<Rightarrow> error + world" where
  "putWastes s [] = Inr s"
| "putWastes s (waste # wastes) =
     (case marshalWaste waste of
        Inl err \<Rightarrow> Inl err
      | Inr wasteJSON \<Rightarrow> putWastes (PutState s (''WASTE_'' @ Waste.ID waste) wasteJSON) wastes)"

definition InitLedger :: "clock \<Rightarrow> world \<Rightarrow> error + world" where
  "InitLedger now s = putWastes s (sampleWastes now)"

definition WasteExists :: "world \<Rightarrow> string \<Rightarrow> bool" where
  "WasteExists s ident = (GetState s (''WASTE_'' @ ident) \<noteq> None)"

definition CreateWaste ::
  "clock \<Rightarrow> world \<Rightarrow> string \<Rightarrow> string \<Rightarrow> float64 \<Rightarrow> string \<Rightarrow> string \<Rightarrow> string \<Rightarrow> string
    \<Rightarrow> error + world" where
  "CreateWaste now s ident wasteType quantity harvestDate owner farm location =
     (if WasteExists s ident then Inl (WasteAlreadyExists ident)
      else
        let waste =
          \<lparr>Waste.ID = ident, Type = wasteType, Quantity = quantity, HarvestDate = harvestDate,
           Status = ''COLLECTED'', Owner = owner, Farm = farm, Location = location,
           CreatedAt = now 0, UpdatedAt = now 1,
           History = [\<lparr>Timestamp = now 2, Action = ''CREATED'', Actor = owner,
                       Details = ''Waste collected: '' @ wasteType @ '', Quantity: ''
                                   @ fmt2f quantity\<rparr>]\<rparr>
        in case marshalWaste waste of
             Inl err \<Rightarrow> Inl err
           | Inr wasteJSON \<Rightarrow> Inr (PutState s (''WASTE_'' @ ident) wasteJSON))"

definition ReadWaste :: "world \<Rightarrow> string \<Rightarrow> error + Waste" where
  "ReadWaste s ident =
     (case GetState s (''WASTE_'' @ ident) of
        None \<Rightarrow> Inl (WasteDoesNotExist ident)
      | Some wasteJSON \<Rightarrow> Inr (unmarshalWaste wasteJSON))"

definition UpdateWasteStatus ::
  "clock \<Rightarrow> world \<Rightarrow> string \<Rightarrow> string \<Rightarrow> string \<Rightarrow> string \<Rightarrow> error + world" where
  "UpdateWasteStatus now s ident newStatus actor details =
     (case ReadWaste s ident of
        Inl err \<Rightarrow> Inl err
      | Inr waste \<Rightarrow>
          let oldStatus = Waste.Status waste;
              waste1 = waste\<lparr>Waste.Status := newStatus, Waste.UpdatedAt := now 0\<rparr>;
              historyEntry =
                \<lparr>Timestamp = now 1, Action = ''STATUS_CHANGED'', Actor = actor,
                 Details = ''Status changed from '' @ oldStatus @ '' to '' @ newStatus
                             @ ''. '' @ details\<rparr>;
              waste2 = waste1\<lparr>Waste.History := Waste.History waste1 @ [historyEntry]\<rparr>
          in (case marshalWaste waste2 of
                Inl err \<Rightarrow> Inl err
              | Inr wasteJSON \<Rightarrow> Inr (PutState s (''WASTE_'' @ ident) wasteJSON)))"

definition CreateExtraction ::
  "clock \<Rightarrow> world \<Rightarrow> string \<Rightarrow> string \<Rightarrow> string \<Rightarrow> float64 \<Rightarrow> string \<Rightarrow> string
    \<Rightarrow> error + world" where
  "CreateExtraction now s ident wasteId productType quantity quality processor =
     (case ReadWaste s wasteId of
        Inl err \<Rightarrow> Inl (SourceWasteNotFound err)
      | Inr _ \<Rightarrow>
          if GetState s (''EXTRACTION_'' @ ident) \<noteq> None then Inl (ExtractionAlreadyExists ident)
          else
            let extraction =
              \<lparr>Extraction.ID = ident, WasteID = wasteId, ProductType = productType,
               Quantity = quantity, Quality = quality, ExtractionDate = now 0,
               Processor = processor, Status = ''PROCESSED'', CreatedAt = now 1,
               History = [\<lparr>Timestamp = now 2, Action = ''EXTRACTED'', Actor = processor,
                           Details = ''Extracted '' @ productType @ '' ('' @ fmt2f quantity
                                       @ '' units) from waste '' @ wasteId\<rparr>]\<rparr>
            in (case marshalExtraction extraction of
                  Inl err \<Rightarrow> Inl err
                | Inr extractionJSON \<Rightarrow>
                    UpdateWasteStatus (\<lambda>i. now (i + 3))
                      (PutState s (''EXTRACTION_'' @ ident) extractionJSON)
                      wasteId ''PROCESSED'' processor
                      (''Used for '' @ productType @ '' extraction'')))"

definition CreateRecycling ::
  "clock \<Rightarrow> world \<Rightarrow> string \<Rightarrow> string \<Rightarrow> string \<Rightarrow> float64 \<Rightarrow> string \<Rightarrow> string
    \<Rightarrow> error + world" where
  "CreateRecycling now s ident wasteId recycledProduct quantity method recycler =
     (case ReadWaste s wasteId of
        Inl err \<Rightarrow> Inl (SourceWasteNotFound err)
      | Inr _ \<Rightarrow>
          if GetState s (''RECYCLING_'' @ ident) \<noteq> None then Inl (RecyclingAlreadyExists ident)
          else
            let recycling =
              \<lparr>Recycling.ID = ident, WasteID = wasteId, RecycledProduct = recycledProduct,
               Quantity = quantity, Method = method, RecyclingDate = now 0,
               Recycler = recycler, Status = ''COMPLETED'', CreatedAt = now 1,
               History = [\<lparr>Timestamp = now 2, Action = ''RECYCLED'', Actor = recycler,
                           Details = ''Recycled waste '' @ wasteId @ '' into ''
                                       @ recycledProduct @ '' ('' @ fmt2f quantity
                                       @ '' units) using '' @ method\<rparr>]\<rparr>
            in (case marshalRecycling recycling of
                  Inl err \<Rightarrow> Inl err
                | Inr recyclingJSON \<Rightarrow>
                    UpdateWasteStatus (\<lambda>i. now (i + 3))
                      (PutState s (''RECYCLING_'' @ ident) recyclingJSON)
                      wasteId ''RECYCLED'' recycler
                      (''Recycled into '' @ recycledProduct @ '' using '' @ method)))"

definition GetAllWastes :: "world \<Rightarrow> Waste list" where
  "GetAllWastes s = map (\<lambda>(k, v). unmarshalWaste v) (GetStateByRange s ''WASTE_'' ''WASTE_~'')"

definition GetAllExtractions :: "world \<Rightarrow> Extraction list" where
  "GetAllExtractions s =
     map (\<lambda>(k, v). unmarshalExtraction v) (GetStateByRange s ''EXTRACTION_'' ''EXTRACTION_~'')"

definition GetAllRecyclings :: "world \<Rightarrow> Recycling list" where
  "GetAllRecyclings s =
     map (\<lambda>(k, v). unmarshalRecycling v) (GetStateByRange s ''RECYCLING_'' ''RECYCLING_~'')"

text \<open>
  The two loops of \<open>GetTraceability\<close> walk an iterator and stop (\<open>break\<close>) at the first
  record whose waste reference is the waste asked for.
\<close>

fun findExtraction :: "string \<Rightarrow> (string \<times> doc) list \<Rightarrow> TraceabilityInfo \<Rightarrow> TraceabilityInfo" where
  "findExtraction wasteId [] traceInfo = traceInfo"
| "findExtraction wasteId (queryResponse # rest) traceInfo =
     (let extraction = unmarshalExtraction (snd queryResponse)
      in if Extraction.WasteID extraction = wasteId
         then traceInfo\<lparr>Extraction := Some extraction,
                         Chain := Chain traceInfo @ Extraction.History extraction\<rparr>
         else findExtraction wasteId rest traceInfo)"

fun findRecycling :: "string \<Rightarrow> (string \<times> doc) list \<Rightarrow> TraceabilityInfo \<Rightarrow> TraceabilityInfo" where
  "findRecycling wasteId [] traceInfo = traceInfo"
| "findRecycling wasteId (queryResponse # rest) traceInfo =
     (let recycling = unmarshalRecycling (snd queryResponse)
      in if Recycling.WasteID recycling = wasteId
         then traceInfo\<lparr>Recycling := Some recycling,
                         Chain := Chain traceInfo @ Recycling.History recycling\<rparr>
         else findRecycling wasteId rest traceInfo)"

definition GetTraceability :: "world \<Rightarrow> string \<Rightarrow> error + TraceabilityInfo" where
  "GetTraceability s wasteId =
     (case ReadWaste s wasteId of
        Inl err \<Rightarrow> Inl err
      | Inr waste \<Rightarrow>
          let traceInfo = \<lparr>Waste = Some waste, Extraction = None, Recycling = None,
                           Chain = Waste.History waste\<rparr>;
              traceInfo1 = findExtraction wasteId
                             (GetStateByRange s ''EXTRACTION_'' ''EXTRACTION_~'') traceInfo;
              traceInfo2 = findRecycling wasteId
                             (GetStateByRange s ''RECYCLING_'' ''RECYCLING_~'') traceInfo1
          in Inr traceInfo2)"

definition GetWasteHistory :: "world \<Rightarrow> string \<Rightarrow> error + History list" where
  "GetWasteHistory s ident =
     (case ReadWaste s ident of Inl err \<Rightarrow> Inl err | Inr waste \<Rightarrow> Inr (Waste.History waste))"

subsection \<open>Transactions and reachable world states\<close>

text \<open>
  A transaction is one invocation of the chaincode with its clock. The ledger commits the
  writes of a transaction that returns no error and nothing of one that returns an error.
\<close>

datatype tx =
    InitLedgerTx
  | CreateWasteTx string string float64 string string string string
  | UpdateWasteStatusTx string string string string
  | CreateExtractionTx string string string float64 string string
  | CreateRecyclingTx string string string float64 string string

fun execute :: "clock \<Rightarrow> world \<Rightarrow> tx \<Rightarrow> error + world" where
  "execute now s InitLedgerTx = InitLedger now s"
| "execute now s (CreateWasteTx ident wasteType quantity harvestDate owner farm location) =
     CreateWaste now s ident wasteType quantity harvestDate owner farm location"
| "execute now s (UpdateWasteStatusTx ident newStatus actor details) =
     UpdateWasteStatus now s ident newStatus actor details"
| "execute now s (CreateExtractionTx ident wasteId productType quantity quality processor) =
     CreateExtraction now s ident wasteId productType quantity quality processor"
| "execute now s (CreateRecyclingTx ident wasteId recycledProduct quantity method recycler) =
     CreateRecycling now s ident wasteId recycledProduct quantity method recycler"

definition commit :: "world \<Rightarrow> error + world \<Rightarrow> world" where
  "commit s r = (case r of Inl err \<Rightarrow> s | Inr s' \<Rightarrow> s')"

fun run :: "world \<Rightarrow> (clock \<times> tx) list \<Rightarrow> world" where
  "run s [] = s"
| "run s ((now, t) # txs) = run (commit s (execute now s t)) txs"

definition validStatus :: "string \<Rightarrow> bool" where
  "validStatus st = (st = ''COLLECTED'' \<or> st = ''PROCESSED'' \<or> st = ''RECYCLED'')"

fun statusArgOk :: "tx \<Rightarrow> bool" where
  "statusArgOk (UpdateWasteStatusTx ident newStatus actor details) = validStatus newStatus"
| "statusArgOk _ = True"

definition historyOf :: "Extraction option \<Rightarrow> History list" where
  "historyOf x = (case x of None \<Rightarrow> [] | Some e \<Rightarrow> Extraction.History e)"

definition historyOfR :: "Recycling option \<Rightarrow> History list" where
  "historyOfR x = (case x of None \<Rightarrow> [] | Some r \<Rightarrow> Recycling.History r)"

section \<open>The chaincode of \<open>blockchain/chaincode/waste.go\<close>\<close>

text \<open>
  The repository holds a second chaincode with the same operation names: wastes without
  history, an integer quantity, keys that are the bare id. Its definitions carry the suffix
  \<open>_basic\<close>. It validates the arguments of \<open>CreateWaste\<close>.
\<close>

record Waste_basic =
  ID :: string
  Type :: string
  Quantity :: int
  HarvestDate :: string
  Status :: string
  Owner :: string
  CreatedAt :: string
  UpdatedAt :: string

datatype error_basic =
    EmptyID                    \<comment> \<open>\<open>l'ID ne peut pas etre vide\<close>\<close>
  | QuantityNotPositive        \<comment> \<open>\<open>la quantite doit etre un nombre positif\<close>\<close>
  | InvalidDate                \<comment> \<open>\<open>format de date invalide (utiliser YYYY-MM-DD)\<close>\<close>
  | AlreadyExists string       \<comment> \<open>\<open>un dechet avec l'ID %s existe deja\<close>\<close>
  | DoesNotExist string        \<comment> \<open>\<open>le dechet %s n'existe pas\<close>\<close>

type_synonym world_basic = "(string \<times> Waste_basic) list"

definition isDigit :: "char \<Rightarrow> bool" where
  "isDigit c = (c \<in> set ''0123456789'')"

definition digitVal :: "char \<Rightarrow> int" where
  "digitVal c = of_char c - 48"

fun digitsVal :: "int \<Rightarrow> string \<Rightarrow> int" where
  "digitsVal acc [] = acc"
| "digitsVal acc (c # cs) = digitsVal (acc * 10 + digitVal c) cs"

text \<open>
  \<open>strconv.Atoi\<close>: an optional sign, then one or more decimal digits and nothing else; a
  value outside the 64-bit \<open>int\<close> is an error.
\<close>

definition Atoi :: "string \<Rightarrow> int option" where
  "Atoi s =
     (let neg = (s \<noteq> [] \<and> hd s = CHR ''-'');
          ds = (if s \<noteq> [] \<and> (hd s = CHR ''-'' \<or> hd s = CHR ''+'') then tl s else s)
      in if ds = [] \<or> \<not> list_all isDigit ds then None
         else
           let n = digitsVal 0 ds; v = (if neg then - n else n)
           in if v < - (2 ^ 63) \<or> 2 ^ 63 - 1 < v then None else Some v)"

text \<open>
  \<open>time.Parse("2006-01-02", v)\<close>: four digits, a dash, two digits, a dash, two digits and
  nothing else; the month in 1..12 and the day in the month.
\<close>

definition daysIn :: "int \<Rightarrow> int \<Rightarrow> int" where
  "daysIn month year =
     (if month = 2 then
        (if year mod 4 = 0 \<and> (year mod 100 \<noteq> 0 \<or> year mod 400 = 0) then 29 else 28)
      else if month \<in> {4, 6, 9, 11} then 30 else 31)"

definition parseDate :: "string \<Rightarrow> bool" where
  "parseDate v =
     (length v = 10 \<and> list_all isDigit (take 4 v) \<and> v ! 4 = CHR ''-'' \<and>
      list_all isDigit (take 2 (drop 5 v)) \<and> v ! 7 = CHR ''-'' \<and>
      list_all isDigit (drop 8 v) \<and>
      (let year = digitsVal 0 (take 4 v); month = digitsVal 0 (take 2 (drop 5 v));
           day = digitsVal 0 (drop 8 v)
       in 1 \<le> month \<and> month \<le> 12 \<and> 1 \<le> day \<and> day \<le> daysIn month year))"

definition saveWaste :: "world_basic \<Rightarrow> Waste_basic \<Rightarrow> world_basic" where
  "saveWaste s waste = AList.update (Waste_basic.ID waste) waste s"

definition InitLedger_basic :: "clock \<Rightarrow> world_basic \<Rightarrow> world_basic" where
  "InitLedger_basic now s =
     saveWaste s
       \<lparr>Waste_basic.ID = ''waste1'', Type = ''Olives'', Quantity = 50,
        HarvestDate = ''2023-10-01'', Status = ''READY'', Owner = ''farmer1'',
        CreatedAt = now 0, UpdatedAt = now 1\<rparr>"

definition CreateWaste_basic ::
  "clock \<Rightarrow> world_basic \<Rightarrow> string \<Rightarrow> string \<Rightarrow> string \<Rightarrow> string \<Rightarrow> string \<Rightarrow> string
    \<Rightarrow> error_basic + world_basic" where
  "CreateWaste_basic now s ident wasteType quantity harvestDate status owner =
     (if ident = [] then Inl EmptyID
      else
        case Atoi quantity of
          None \<Rightarrow> Inl QuantityNotPositive
        | Some qty \<Rightarrow>
            if qty \<le> 0 then Inl QuantityNotPositive
            else if \<not> parseDate harvestDate then Inl InvalidDate
            else if map_of s ident \<noteq> None then Inl (AlreadyExists ident)
            else Inr (saveWaste s
                   \<lparr>Waste_basic.ID = ident, Type = wasteType, Quantity = qty,
                    HarvestDate = harvestDate, Status = status, Owner = owner,
                    CreatedAt = now 0, UpdatedAt = now 1\<rparr>))"

definition GetWaste_basic :: "world_basic \<Rightarrow> string \<Rightarrow> error_basic + Waste_basic" where
  "GetWaste_basic s ident =
     (case map_of s ident of None \<Rightarrow> Inl (DoesNotExist ident) | Some waste \<Rightarrow> Inr waste)"

definition UpdateWasteStatus_basic ::
  "clock \<Rightarrow> world_basic \<Rightarrow> string \<Rightarrow> string \<Rightarrow> error_basic + world_basic" where
  "UpdateWasteStatus_basic now s ident newStatus =
     (case GetWaste_basic s ident of
        Inl err \<Rightarrow> Inl err
      | Inr waste \<Rightarrow>
          Inr (saveWaste s (waste\<lparr>Waste_basic.Status := newStatus,
                                   Waste_basic.UpdatedAt := now 0\<rparr>)))"

text \<open>
  The transactions of this chaincode that write a waste, and the world states they reach.
  \<open>statusArgOk_basic\<close> holds of a create or a status update whose status argument is one of
  the three statuses; \<open>InitLedger\<close> takes no argument and seeds the status \<open>READY\<close>.
\<close>

datatype tx_basic =
    InitLedgerTx_basic
  | CreateWasteTx_basic string string string string string string
  | UpdateWasteStatusTx_basic string string

fun execute_basic :: "clock \<Rightarrow> world_basic \<Rightarrow> tx_basic \<Rightarrow> error_basic + world_basic" where
  "execute_basic now s InitLedgerTx_basic = Inr (InitLedger_basic now s)"
| "execute_basic now s (CreateWasteTx_basic ident wasteType quantity harvestDate status owner) =
     CreateWaste_basic now s ident wasteType quantity harvestDate status owner"
| "execute_basic now s (UpdateWasteStatusTx_basic ident newStatus) =
     UpdateWasteStatus_basic now s ident newStatus"

definition commit_basic :: "world_basic \<Rightarrow> error_basic + world_basic \<Rightarrow> world_basic" where
  "commit_basic s r = (case r of Inl err \<Rightarrow> s | Inr s' \<Rightarrow> s')"

fun run_basic :: "world_basic \<Rightarrow> (clock \<times> tx_basic) list \<Rightarrow> world_basic" where
  "run_basic s [] = s"
| "run_basic s ((now, t) # txs) = run_basic (commit_basic s (execute_basic now s t)) txs"

fun statusArgOk_basic :: "tx_basic \<Rightarrow> bool" where
  "statusArgOk_basic InitLedgerTx_basic = False"
| "statusArgOk_basic (CreateWasteTx_basic ident wasteType quantity harvestDate status owner) =
     validStatus status"
| "statusArgOk_basic (UpdateWasteStatusTx_basic ident newStatus) = validStatus newStatus"

section \<open>The API controllers and the blockchain client\<close>

subsection \<open>JavaScript values\<close>

text \<open>
  Requests, stored records and responses are JavaScript values as \<open>JSON.parse\<close> and object
  literals build them. An object is the list of its properties, read with the first binding
  of a name. Numbers are \<open>float64\<close>.
\<close>

datatype jsval =
    Undefined
  | Null
  | Bool bool
  | Num float64
  | Str string
  | Arr "jsval list"
  | Obj "(string \<times> jsval) list"

fun truthy :: "jsval \<Rightarrow> bool" where
  "truthy Undefined = False"
| "truthy Null = False"
| "truthy (Bool b) = b"
| "truthy (Num (Finite x)) = (x \<noteq> 0)"
| "truthy (Num NaN) = False"
| "truthy (Num PosInf) = True"
| "truthy (Num NegInf) = True"
| "truthy (Str s) = (s \<noteq> [])"
| "truthy (Arr xs) = True"
| "truthy (Obj kvs) = True"

text \<open>\<open>a || b\<close>: the first operand when it is truthy, the second otherwise.\<close>

definition or_js :: "jsval \<Rightarrow> jsval \<Rightarrow> jsval" where
  "or_js a b = (if truthy a then a else b)"

text \<open>
  \<open>v.name\<close> for the property names the controllers read (none of them is a property of a
  prototype): the property of an object, \<open>undefined\<close> on any other value. The source reads
  properties only of values it has found truthy, or of the request body, which the JSON body
  parser of \<open>server.js\<close> always sets to an object.
\<close>

fun getProp :: "jsval \<Rightarrow> string \<Rightarrow> jsval" where
  "getProp (Obj kvs) name = (case map_of kvs name of None \<Rightarrow> Undefined | Some v \<Rightarrow> v)"
| "getProp _ name = Undefined"

text \<open>\<open>result?.transactionId\<close>: \<open>undefined\<close> on \<open>null\<close> and \<open>undefined\<close>.\<close>

definition optProp :: "jsval \<Rightarrow> string \<Rightarrow> jsval" where
  "optProp v name = getProp v name"

text \<open>
  The readings of clock and random generator that a handler makes, and the parts of the
  built-in functions that work on strings and numbers, are parameters: the text of a number
  (\<open>Number.prototype.toString\<close>), the number of a string (\<open>StringToNumber\<close>), the number
  that \<open>parseFloat\<close> reads at the head of a string, the message of the \<open>TypeError\<close> for a
  value with no string conversion, \<open>JSON.stringify\<close>, \<open>JSON.parse\<close> (\<open>None\<close> when it
  throws), the text of \<open>Date.now()\<close>, of \<open>Math.random().toString(36).substr(2, 9)\<close> and of
  \<open>new Date().toISOString()\<close> (\<open>toISOString rt i\<close> for its \<open>i\<close>-th occurrence in the
  handler, counted from 0 in the order of the source).
\<close>

record runtime =
  NumberToString :: "float64 \<Rightarrow> string"
  StringToNumber :: "string \<Rightarrow> float64"
  parseNumberPrefix :: "string \<Rightarrow> float64"
  conversionError :: string
  JSON_stringify :: "jsval \<Rightarrow> string"
  JSON_parse :: "string \<Rightarrow> jsval option"
  Date_now :: string
  random36 :: string
  toISOString :: "nat \<Rightarrow> string"

text \<open>
  The conversion of a value to a string either gives the string or throws a \<open>TypeError\<close>
  (\<open>Inl\<close>, with its message). An object made by \<open>JSON.parse\<close> inherits \<open>toString\<close> from
  \<open>Object.prototype\<close> unless it has a property of that name, which is then not a function:
  such an object has no string conversion. An array converts by joining its elements with a
  comma; \<open>join\<close> writes \<open>null\<close> and \<open>undefined\<close> elements as the empty string and
  converts the others. The values are those that \<open>JSON.parse\<close> builds, so no property is
  a function; the limits of memory and of the call stack are not modelled.
\<close>

fun ToString :: "runtime \<Rightarrow> jsval \<Rightarrow> string + string"
  and join :: "runtime \<Rightarrow> string \<Rightarrow> jsval list \<Rightarrow> string + string"
  and joinElement :: "runtime \<Rightarrow> jsval \<Rightarrow> string + string" where
  "ToString rt Undefined = Inr ''undefined''"
| "ToString rt Null = Inr ''null''"
| "ToString rt (Bool b) = Inr (if b then ''true'' else ''false'')"
| "ToString rt (Num x) = Inr (NumberToString rt x)"
| "ToString rt (Str s) = Inr s"
| "ToString rt (Arr xs) = join rt '','' xs"
| "ToString rt (Obj kvs) =
     (if map_of kvs ''toString'' \<noteq> None then Inl (conversionError rt)
      else Inr ''[object Object]'')"
| "join rt sep [] = Inr []"
| "join rt sep [x] = joinElement rt x"
| "join rt sep (x # y # ys) =
     (case joinElement rt x of
        Inl message \<Rightarrow> Inl message
      | Inr s \<Rightarrow>
          (case join rt sep (y # ys) of
             Inl message \<Rightarrow> Inl message
           | Inr r \<Rightarrow> Inr (s @ sep @ r)))"
| "joinElement rt Undefined = Inr []"
| "joinElement rt Null = Inr []"
| "joinElement rt v = ToString rt v"

text \<open>
  \<open>parseFloat(v)\<close> converts its argument to a string, which may throw, and reads the number
  at the head of that string.
\<close>

definition parseFloat :: "runtime \<Rightarrow> jsval \<Rightarrow> string + float64" where
  "parseFloat rt v =
     (case ToString rt v of
        Inl message \<Rightarrow> Inl message
      | Inr s \<Rightarrow> Inr (parseNumberPrefix rt s))"

text \<open>
  The number that a comparison such as \<open>v > 0\<close> takes for \<open>v\<close>: an object or an array is
  converted through its string, which may throw.
\<close>

fun ToNumber :: "runtime \<Rightarrow> jsval \<Rightarrow> string + float64" where
  "ToNumber rt Undefined = Inr NaN"
| "ToNumber rt Null = Inr (Finite 0)"
| "ToNumber rt (Bool b) = Inr (Finite (if b then 1 else 0))"
| "ToNumber rt (Num x) = Inr x"
| "ToNumber rt (Str s) = Inr (StringToNumber rt s)"
| "ToNumber rt v =
     (case ToString rt v of
        Inl message \<Rightarrow> Inl message
      | Inr s \<Rightarrow> Inr (StringToNumber rt s))"

fun positive :: "float64 \<Rightarrow> bool" where
  "positive (Finite x) = (0 < x)"
| "positive NaN = False"
| "positive PosInf = True"
| "positive NegInf = False"

text \<open>
  \<open>v.length > 0\<close> on a truthy value: arrays and strings have a length; numbers and booleans
  have none (\<open>undefined > 0\<close> is false); an object has the property it was given, and the
  comparison throws when that property has no conversion.
\<close>

fun lengthPositive :: "runtime \<Rightarrow> jsval \<Rightarrow> string + bool" where
  "lengthPositive rt (Arr xs) = Inr (xs \<noteq> [])"
| "lengthPositive rt (Str s) = Inr (s \<noteq> [])"
| "lengthPositive rt (Obj kvs) =
     (case map_of kvs ''length'' of
        None \<Rightarrow> Inr False
      | Some v \<Rightarrow>
          (case ToNumber rt v of
             Inl message \<Rightarrow> Inl message
           | Inr x \<Rightarrow> Inr (positive x)))"
| "lengthPositive rt _ = Inr False"

text \<open>
  The callback of \<open>map\<close> in the list handlers: a string element is replaced by its
  \<open>JSON.parse\<close>, and kept when that throws; any other element is kept.
\<close>

definition parseElement :: "runtime \<Rightarrow> jsval \<Rightarrow> jsval" where
  "parseElement rt v =
     (case v of
        Str text \<Rightarrow> (case JSON_parse rt text of None \<Rightarrow> v | Some parsed \<Rightarrow> parsed)
      | _ \<Rightarrow> v)"

text \<open>
  \<open>v.map(f)\<close> on a value with a positive length: the mapped array for an array, a
  \<open>TypeError\<close> (\<open>None\<close>) for a string or an object, which have no \<open>map\<close>.
\<close>

fun mapParse :: "runtime \<Rightarrow> jsval \<Rightarrow> jsval list option" where
  "mapParse rt (Arr xs) = Some (map (parseElement rt) xs)"
| "mapParse rt _ = None"

record response =
  statusCode :: nat
  body :: jsval

text \<open>
  The answer of the outer \<open>catch\<close> of a handler, for an error thrown outside the calls of
  the ledger.
\<close>

definition internalServerError :: "string \<Rightarrow> response" where
  "internalServerError message =
     \<lparr>statusCode = 500,
      body = Obj [(''error'', Str ''Internal server error''), (''details'', Str message)]\<rparr>"

subsection \<open>The client\<close>

text \<open>
  A client is the object the controllers call: each method takes the organisation, the
  function name and the arguments, and either returns a value or throws an \<open>Error\<close> with a
  message (\<open>Inl\<close>); \<open>initialize\<close> takes no argument.
\<close>

record BlockchainClient =
  initialize :: "string + bool"
  submitTransaction :: "string \<Rightarrow> string \<Rightarrow> jsval list \<Rightarrow> string + jsval"
  query :: "string \<Rightarrow> string \<Rightarrow> jsval list \<Rightarrow> string + jsval"
  queryAll :: "string \<Rightarrow> string \<Rightarrow> jsval list \<Rightarrow> string + jsval"
  getHistory :: "string \<Rightarrow> string \<Rightarrow> jsval list \<Rightarrow> string + jsval"

text \<open>
  The class that the enhanced client module exports (\<open>module.exports = class ...\<close>). Its
  methods \<open>submitTransaction\<close>, \<open>query\<close> and \<open>getHistory\<close> first write a log line
  with \<open>args.join(", ")\<close>, which throws for an argument with no string conversion, and
  then return their fixed answer. The readings of \<open>Date.now()\<close> and
  \<open>new Date().toISOString()\<close> inside \<open>submitTransaction\<close> are parameters, and so is
  \<open>walletOk\<close>, whether the calls of the wallet in \<open>initialize\<close> went through;
  \<open>initialize\<close> catches their errors and returns false.
\<close>

definition exported_submitTransaction ::
  "runtime \<Rightarrow> string \<Rightarrow> string \<Rightarrow> string \<Rightarrow> string \<Rightarrow> jsval list \<Rightarrow> string + jsval" where
  "exported_submitTransaction rt dateNow isoNow orgName functionName args =
     (case join rt '', '' args of
        Inl message \<Rightarrow> Inl message
      | Inr logged \<Rightarrow>
          Inr (Obj [(''transactionId'', Str (''mock_tx_'' @ dateNow)),
                    (''result'',
                     Str (''Transaction '' @ functionName @ '' completed successfully'')),
                    (''timestamp'', Str isoNow)]))"

definition exported_query ::
  "runtime \<Rightarrow> string \<Rightarrow> string \<Rightarrow> jsval list \<Rightarrow> string + jsval" where
  "exported_query rt orgName functionName args =
     (case join rt '', '' args of
        Inl message \<Rightarrow> Inl message
      | Inr logged \<Rightarrow>
          if functionName = ''GetAllWastes'' then Inr (Arr [])
          else if functionName = ''GetWaste'' then Inr Null
          else if functionName = ''GetAllExtractions'' then Inr (Arr [])
          else if functionName = ''GetExtraction'' then Inr Null
          else if functionName = ''GetAllRecyclings'' then Inr (Arr [])
          else if functionName = ''GetRecycling'' then Inr Null
          else Inr Null)"

definition exported_queryAll ::
  "runtime \<Rightarrow> string \<Rightarrow> string \<Rightarrow> jsval list \<Rightarrow> string + jsval" where
  "exported_queryAll rt orgName functionName args = exported_query rt orgName functionName args"

definition exported_getHistory ::
  "runtime \<Rightarrow> string \<Rightarrow> string \<Rightarrow> jsval list \<Rightarrow> string + jsval" where
  "exported_getHistory rt orgName functionName args =
     (case join rt '', '' args of
        Inl message \<Rightarrow> Inl message
      | Inr logged \<Rightarrow> Inr (Arr []))"

definition exported_initialize :: "bool \<Rightarrow> string + bool" where
  "exported_initialize walletOk = Inr walletOk"

definition exportedClient :: "runtime \<Rightarrow> bool \<Rightarrow> string \<Rightarrow> string \<Rightarrow> BlockchainClient" where
  "exportedClient rt walletOk dateNow isoNow =
     \<lparr>initialize = exported_initialize walletOk,
      submitTransaction = exported_submitTransaction rt dateNow isoNow,
      query = exported_query rt,
      queryAll = exported_queryAll rt,
      getHistory = exported_getHistory rt\<rparr>"

subsection \<open>The waste controller\<close>

text \<open>
  The module state of a controller: the flag \<open>blockchainInitialized\<close> and the array of
  temporary records (the local mirror). A handler returns the new state and the response.
\<close>

record wasteController =
  blockchainInitialized :: bool
  tempWastes :: "jsval list"

text \<open>
  The id and the record that \<open>addWaste\<close> builds from a request (the constants \<open>wasteId\<close>
  and \<open>blockchainWasteData\<close> of the source).
\<close>

definition newWasteId :: "runtime \<Rightarrow> string" where
  "newWasteId rt = ''WASTE_'' @ Date_now rt @ ''_'' @ random36 rt"

definition blockchainWasteData :: "runtime \<Rightarrow> jsval \<Rightarrow> string + (string \<times> jsval) list" where
  "blockchainWasteData rt reqBody =
     (let wasteData = getProp reqBody ''wasteData''
      in case parseFloat rt (getProp wasteData ''quantity'') of
           Inl message \<Rightarrow> Inl message
         | Inr quantity \<Rightarrow>
             Inr [(''wasteId'', Str (newWasteId rt)),
                  (''farmerId'', or_js (getProp reqBody ''farmerId'')
                                  (or_js (getProp wasteData ''farmerId'') (Str ''farmer_001''))),
                  (''type'', getProp wasteData ''type''),
                  (''quantity'', Num quantity),
                  (''harvestDate'', getProp wasteData ''harvestDate''),
                  (''status'', getProp wasteData ''status''),
                  (''location'', or_js (getProp reqBody ''location'')
                                  (or_js (getProp wasteData ''location'')
                                     (Str ''Default Farm Location''))),
                  (''qualityGrade'', or_js (getProp reqBody ''qualityGrade'')
                                      (or_js (getProp wasteData ''qualityGrade'') (Str ''A''))),
                  (''moistureContent'', or_js (getProp reqBody ''moistureContent'')
                                         (or_js (getProp wasteData ''moistureContent'')
                                            (Str ''15%''))),
                  (''timestamp'', Str (toISOString rt 0)),
                  (''transferDate'', Null)])"

text \<open>
  When \<open>parseFloat(quantity)\<close> throws, the record is not built and the outer \<open>catch\<close>
  answers 500; nothing has been added to the temporary array by then.
\<close>

definition addWaste ::
  "runtime \<Rightarrow> BlockchainClient \<Rightarrow> wasteController \<Rightarrow> jsval \<Rightarrow> wasteController \<times> response" where
  "addWaste rt blockchainClient st reqBody =
     (let wasteData = getProp reqBody ''wasteData''
      in if \<not> truthy wasteData then
           (st, \<lparr>statusCode = 400,
                 body = Obj [(''error'', Str ''Missing waste data''),
                             (''details'', Str ''The 'wasteData' field is required'')]\<rparr>)
         else
           let type = getProp wasteData ''type'';
               quantity = getProp wasteData ''quantity'';
               harvestDate = getProp wasteData ''harvestDate'';
               status = getProp wasteData ''status''
           in if \<not> truthy type \<or> \<not> truthy quantity \<or> \<not> truthy harvestDate \<or> \<not> truthy status
              then
                (st, \<lparr>statusCode = 400,
                      body = Obj [(''error'', Str ''Incomplete data''),
                                  (''details'',
                                   Str ''All fields are required: type, quantity, harvestDate, status'')]\<rparr>)
              else
                (case blockchainWasteData rt reqBody of
                   Inl thrown \<Rightarrow> (st, internalServerError thrown)
                 | Inr wasteRecord \<Rightarrow>
                     let wasteId = newWasteId rt;
                         newWaste = Obj ((''id'', Str wasteId) # wasteRecord)
                     in if blockchainInitialized st then
                          (case submitTransaction blockchainClient ''farmer'' ''CreateWaste''
                                  [Str wasteId, Str (JSON_stringify rt (Obj wasteRecord))] of
                             Inr result \<Rightarrow>
                               (st\<lparr>tempWastes := tempWastes st @ [newWaste]\<rparr>,
                                \<lparr>statusCode = 201,
                                 body = Obj [(''success'', Bool True),
                                             (''message'',
                                              Str ''Waste successfully recorded on blockchain''),
                                             (''data'', newWaste),
                                             (''blockchainTxId'',
                                              or_js (optProp result ''transactionId'')
                                                (Str ''pending'')),
                                             (''source'', Str ''blockchain'')]\<rparr>)
                           | Inl message \<Rightarrow>
                               (st\<lparr>tempWastes := tempWastes st @ [newWaste]\<rparr>,
                                \<lparr>statusCode = 201,
                                 body = Obj [(''success'', Bool True),
                                             (''message'',
                                              Str ''Waste added to temporary storage (blockchain unavailable)''),
                                             (''data'', newWaste),
                                             (''warning'',
                                              Str (''Blockchain temporarily unavailable: ''
                                                   @ message)),
                                             (''source'', Str ''fallback'')]\<rparr>))
                        else
                          (st\<lparr>tempWastes := tempWastes st @ [newWaste]\<rparr>,
                           \<lparr>statusCode = 201,
                            body = Obj [(''success'', Bool True),
                                        (''message'',
                                         Str ''Waste added to temporary storage (blockchain initializing)''),
                                        (''data'', newWaste),
                                        (''source'', Str ''temporary'')]\<rparr>)))"

text \<open>
  The list handlers answer 200 with the records they chose and the label of their source.
\<close>

definition listResponse :: "runtime \<Rightarrow> jsval list \<Rightarrow> string \<Rightarrow> response" where
  "listResponse rt records source =
     \<lparr>statusCode = 200,
      body = Obj [(''success'', Bool True),
                  (''data'', Arr records),
                  (''count'', Num (Finite (real (length records)))),
                  (''source'', Str source),
                  (''timestamp'', Str (toISOString rt 0))]\<rparr>"

definition listWaste :: "runtime \<Rightarrow> BlockchainClient \<Rightarrow> wasteController \<Rightarrow> response" where
  "listWaste rt blockchainClient st =
     (if blockchainInitialized st then
        (case queryAll blockchainClient ''farmer'' ''GetAllWastes'' [] of
           Inr blockchainWastes \<Rightarrow>
             if truthy blockchainWastes then
               (case lengthPositive rt blockchainWastes of
                  Inl thrown \<Rightarrow> listResponse rt (tempWastes st) ''fallback''
                | Inr nonEmpty \<Rightarrow>
                    if nonEmpty then
                      (case mapParse rt blockchainWastes of
                         Some wastes \<Rightarrow> listResponse rt wastes ''blockchain''
                       | None \<Rightarrow> listResponse rt (tempWastes st) ''fallback'')
                    else listResponse rt (tempWastes st) ''temporary'')
             else listResponse rt (tempWastes st) ''temporary''
         | Inl message \<Rightarrow> listResponse rt (tempWastes st) ''fallback'')
      else listResponse rt (tempWastes st) ''temporary'')"

text \<open>
  \<open>initializeBlockchain\<close> runs when the module is loaded: the flag is set once
  \<open>initialize\<close> has returned, whatever it returned, and cleared when it threw.
\<close>

definition initializeBlockchain :: "BlockchainClient \<Rightarrow> wasteController \<Rightarrow> wasteController" where
  "initializeBlockchain blockchainClient st =
     (case initialize blockchainClient of
        Inr ok \<Rightarrow> st\<lparr>wasteController.blockchainInitialized := True\<rparr>
      | Inl message \<Rightarrow> st\<lparr>wasteController.blockchainInitialized := False\<rparr>)"

subsection \<open>The extraction controller\<close>

record extractionController =
  blockchainInitialized :: bool
  extractions :: "jsval list"

text \<open>
  The array the module starts with; \<open>d0\<close> and \<open>d1\<close> are the two readings of
  \<open>new Date().toISOString()\<close> at load time.
\<close>

definition initialExtractions :: "string \<Rightarrow> string \<Rightarrow> jsval list" where
  "initialExtractions d0 d1 =
     [Obj [(''id'', Str ''EXTRACTION_DEFAULT_1''),
           (''extractionId'', Str ''EXTRACTION_DEFAULT_1''),
           (''wasteId'', Str ''WASTE_DEFAULT_1''),
           (''processorId'', Str ''processor_001''),
           (''extractionDate'', Str d0),
           (''productType'', Str ''Huile d'olive''),
           (''quantity'', Num (Finite 10)),
           (''quality'', Str ''Extra Vierge''),
           (''extractionMethod'', Str ''Cold Press''),
           (''temperature'', Str (''27'' @ [CHR 0xC2, CHR 0xB0] @ ''C'')),
           (''pressure'', Str ''3 bars''),
           (''yieldPercentage'', Num (Finite 20)),
           (''status'', Str ''PROCESSED''),
           (''timestamp'', Str d1)]]"

text \<open>
  As in \<open>addWaste\<close>, the only expression of the record that can throw is
  \<open>parseFloat(quantity)\<close>, and the outer \<open>catch\<close> then answers 500. The call that links
  the extraction to its waste has a \<open>try\<close> of its own: its outcome changes nothing.
\<close>

definition addExtraction ::
  "runtime \<Rightarrow> BlockchainClient \<Rightarrow> extractionController \<Rightarrow> jsval
    \<Rightarrow> extractionController \<times> response" where
  "addExtraction rt blockchainClient st reqBody =
     (let extractionData = getProp reqBody ''extractionData''
      in if \<not> truthy extractionData then
           (st, \<lparr>statusCode = 400,
                 body = Obj [(''error'', Str ''Missing extraction data''),
                             (''details'', Str ''The 'extractionData' field is required'')]\<rparr>)
         else
           let wasteId = getProp extractionData ''wasteId'';
               productType = getProp extractionData ''productType'';
               quantity = getProp extractionData ''quantity'';
               quality = getProp extractionData ''quality''
           in if \<not> truthy wasteId \<or> \<not> truthy productType \<or> \<not> truthy quantity \<or> \<not> truthy quality
              then
                (st, \<lparr>statusCode = 400,
                      body = Obj [(''error'', Str ''Incomplete data''),
                                  (''details'',
                                   Str ''All fields are required: wasteId, productType, quantity, quality'')]\<rparr>)
              else
                (case parseFloat rt quantity of
                   Inl thrown \<Rightarrow> (st, internalServerError thrown)
                 | Inr quantityNumber \<Rightarrow>
                     let extractionId = ''EXTRACTION_'' @ Date_now rt @ ''_'' @ random36 rt;
                         blockchainExtractionData =
                           [(''extractionId'', Str extractionId),
                            (''wasteId'', wasteId),
                            (''processorId'', or_js (getProp reqBody ''processorId'')
                                               (or_js (getProp extractionData ''processorId'')
                                                  (Str ''processor_001''))),
                            (''extractionDate'', or_js (getProp extractionData ''extractionDate'')
                                                  (Str (toISOString rt 0))),
                            (''productType'', productType),
                            (''quantity'', Num quantityNumber),
                            (''quality'', quality),
                            (''extractionMethod'', or_js (getProp extractionData ''extractionMethod'')
                                                    (Str ''Cold Press'')),
                            (''temperature'', or_js (getProp extractionData ''temperature'')
                                               (Str (''27'' @ [CHR 0xC2, CHR 0xB0] @ ''C''))),
                            (''pressure'', or_js (getProp extractionData ''pressure'') (Str ''3 bars'')),
                            (''yieldPercentage'', or_js (getProp extractionData ''yieldPercentage'')
                                                   (Num (Finite 20))),
                            (''status'', Str ''PROCESSED''),
                            (''timestamp'', Str (toISOString rt 1))];
                         newExtraction = Obj ((''id'', Str extractionId) # blockchainExtractionData)
                     in if blockchainInitialized st then
                          (case submitTransaction blockchainClient ''processor'' ''CreateExtraction''
                                  [Str extractionId,
                                   Str (JSON_stringify rt (Obj blockchainExtractionData))] of
                             Inr result \<Rightarrow>
                               (let linkResult = submitTransaction blockchainClient ''processor''
                                                   ''LinkExtractionToWaste'' [wasteId, Str extractionId]
                                in (st\<lparr>extractions := extractions st @ [newExtraction]\<rparr>,
                                    \<lparr>statusCode = 201,
                                     body = Obj [(''success'', Bool True),
                                                 (''message'',
                                                  Str ''Extraction successfully recorded on blockchain''),
                                                 (''data'', newExtraction),
                                                 (''blockchainTxId'',
                                                  or_js (optProp result ''transactionId'') (Str ''pending'')),
                                                 (''source'', Str ''blockchain'')]\<rparr>))
                           | Inl message \<Rightarrow>
                               (st\<lparr>extractions := extractions st @ [newExtraction]\<rparr>,
                                \<lparr>statusCode = 201,
                                 body = Obj [(''success'', Bool True),
                                             (''message'',
                                              Str ''Extraction added to temporary storage (blockchain unavailable)''),
                                             (''data'', newExtraction),
                                             (''warning'',
                                              Str (''Blockchain temporarily unavailable: '' @ message)),
                                             (''source'', Str ''fallback'')]\<rparr>))
                        else
                          (st\<lparr>extractions := extractions st @ [newExtraction]\<rparr>,
                           \<lparr>statusCode = 201,
                            body = Obj [(''success'', Bool True),
                                        (''message'',
                                         Str ''Extraction added to temporary storage (blockchain initializing)''),
                                        (''data'', newExtraction),
                                        (''source'', Str ''temporary'')]\<rparr>)))"

definition listExtractions :: "runtime \<Rightarrow> BlockchainClient \<Rightarrow> extractionController \<Rightarrow> response" where
  "listExtractions rt blockchainClient st =
     (if blockchainInitialized st then
        (case queryAll blockchainClient ''processor'' ''GetAllExtractions'' [] of
           Inr blockchainExtractions \<Rightarrow>
             if truthy blockchainExtractions then
               (case lengthPositive rt blockchainExtractions of
                  Inl thrown \<Rightarrow> listResponse rt (extractions st) ''fallback''
                | Inr nonEmpty \<Rightarrow>
                    if nonEmpty then
                      (case mapParse rt blockchainExtractions of
                         Some extractionList \<Rightarrow> listResponse rt extractionList ''blockchain''
                       | None \<Rightarrow> listResponse rt (extractions st) ''fallback'')
                    else listResponse rt (extractions st) ''temporary'')
             else listResponse rt (extractions st) ''temporary''
         | Inl message \<Rightarrow> listResponse rt (extractions st) ''fallback'')
      else listResponse rt (extractions st) ''temporary'')"

text \<open>
  The by-id handlers ask the ledger first; a falsy answer, a thrown error and a string that
  \<open>JSON.parse\<close> rejects all lead to the search in the temporary array.
\<close>

definition fromLedger :: "runtime \<Rightarrow> string + jsval \<Rightarrow> jsval option" where
  "fromLedger rt answer =
     (case answer of
        Inl message \<Rightarrow> None
      | Inr v \<Rightarrow>
          if truthy v then (case v of Str text \<Rightarrow> JSON_parse rt text | _ \<Rightarrow> Some v)
          else None)"

definition getExtractionById ::
  "runtime \<Rightarrow> BlockchainClient \<Rightarrow> extractionController \<Rightarrow> string \<Rightarrow> response" where
  "getExtractionById rt blockchainClient st extractionId =
     (if extractionId = [] then
        \<lparr>statusCode = 400, body = Obj [(''error'', Str ''Missing extractionId parameter'')]\<rparr>
      else
        case (if blockchainInitialized st
              then fromLedger rt (query blockchainClient ''processor'' ''GetExtraction''
                                    [Str extractionId])
              else None) of
          Some extractionData \<Rightarrow>
            \<lparr>statusCode = 200,
             body = Obj [(''success'', Bool True), (''data'', extractionData),
                         (''source'', Str ''blockchain'')]\<rparr>
        | None \<Rightarrow>
            (case find (\<lambda>e. getProp e ''id'' = Str extractionId
                              \<or> getProp e ''extractionId'' = Str extractionId) (extractions st) of
               Some extraction \<Rightarrow>
                 \<lparr>statusCode = 200,
                  body = Obj [(''success'', Bool True), (''data'', extraction),
                              (''source'', Str (if blockchainInitialized st then ''fallback''
                                               else ''temporary''))]\<rparr>
             | None \<Rightarrow>
                 \<lparr>statusCode = 404,
                  body = Obj [(''error'', Str ''Extraction not found''),
                              (''extractionId'', Str extractionId)]\<rparr>))"

definition byWasteResponse :: "runtime \<Rightarrow> jsval list \<Rightarrow> string \<Rightarrow> string \<Rightarrow> response" where
  "byWasteResponse rt records wasteId source =
     \<lparr>statusCode = 200,
      body = Obj [(''success'', Bool True),
                  (''data'', Arr records),
                  (''count'', Num (Finite (real (length records)))),
                  (''wasteId'', Str wasteId),
                  (''source'', Str source),
                  (''timestamp'', Str (toISOString rt 0))]\<rparr>"

definition getExtractionsByWasteId ::
  "runtime \<Rightarrow> BlockchainClient \<Rightarrow> extractionController \<Rightarrow> string \<Rightarrow> response" where
  "getExtractionsByWasteId rt blockchainClient st wasteId =
     (if wasteId = [] then
        \<lparr>statusCode = 400, body = Obj [(''error'', Str ''Missing wasteId parameter'')]\<rparr>
      else if blockchainInitialized st then
        (case query blockchainClient ''processor'' ''GetExtractionsByWasteId'' [Str wasteId] of
           Inr blockchainExtractions \<Rightarrow>
             if truthy blockchainExtractions then
               (case lengthPositive rt blockchainExtractions of
                  Inl thrown \<Rightarrow>
                    byWasteResponse rt
                      (filter (\<lambda>e. getProp e ''wasteId'' = Str wasteId) (extractions st))
                      wasteId ''fallback''
                | Inr nonEmpty \<Rightarrow>
                    if nonEmpty then
                      (case mapParse rt blockchainExtractions of
                         Some relatedExtractions \<Rightarrow>
                           byWasteResponse rt relatedExtractions wasteId ''blockchain''
                       | None \<Rightarrow>
                           byWasteResponse rt
                             (filter (\<lambda>e. getProp e ''wasteId'' = Str wasteId) (extractions st))
                             wasteId ''fallback'')
                    else byWasteResponse rt [] wasteId ''temporary'')
             else byWasteResponse rt [] wasteId ''temporary''
         | Inl message \<Rightarrow>
             byWasteResponse rt
               (filter (\<lambda>e. getProp e ''wasteId'' = Str wasteId) (extractions st))
               wasteId ''fallback'')
      else
        byWasteResponse rt
          (filter (\<lambda>e. getProp e ''wasteId'' = Str wasteId) (extractions st))
          wasteId ''temporary'')"

subsection \<open>The recycling controller\<close>

record recyclingController =
  blockchainInitialized :: bool
  recyclings :: "jsval list"

definition initialRecyclings :: "string \<Rightarrow> string \<Rightarrow> jsval list" where
  "initialRecyclings d0 d1 =
     [Obj [(''id'', Str ''RECYCLING_DEFAULT_1''),
           (''recyclingId'', Str ''RECYCLING_DEFAULT_1''),
           (''wasteId'', Str ''WASTE_DEFAULT_2''),
           (''recyclerId'', Str ''recycler_001''),
           (''recyclingDate'', Str d0),
           (''recycledProduct'', Str ''Compost''),
           (''quantity'', Num (Finite 25)),
           (''method'', Str ''Compostage''),
           (''qualityGrade'', Str ''Premium''),
           (''processingTime'', Str ''14 days''),
           (''environmentalImpact'', Str ''Carbon Negative''),
           (''certifications'', Arr [Str ''Organic'', Str ''EU Certified'']),
           (''status'', Str ''COMPLETED''),
           (''timestamp'', Str d1)]]"

definition addRecycling ::
  "runtime \<Rightarrow> BlockchainClient \<Rightarrow> recyclingController \<Rightarrow> jsval
    \<Rightarrow> recyclingController \<times> response" where
  "addRecycling rt blockchainClient st reqBody =
     (let recyclingData = getProp reqBody ''recyclingData''
      in if \<not> truthy recyclingData then
           (st, \<lparr>statusCode = 400,
                 body = Obj [(''error'', Str ''Missing recycling data''),
                             (''details'', Str ''The 'recyclingData' field is required'')]\<rparr>)
         else
           let wasteId = getProp recyclingData ''wasteId'';
               recycledProduct = getProp recyclingData ''recycledProduct'';
               quantity = getProp recyclingData ''quantity'';
               method = getProp recyclingData ''method''
           in if \<not> truthy wasteId \<or> \<not> truthy recycledProduct \<or> \<not> truthy quantity \<or> \<not> truthy method
              then
                (st, \<lparr>statusCode = 400,
                      body = Obj [(''error'', Str ''Incomplete data''),
                                  (''details'',
                                   Str ''All fields are required: wasteId, recycledProduct, quantity, method'')]\<rparr>)
              else
                (case parseFloat rt quantity of
                   Inl thrown \<Rightarrow> (st, internalServerError thrown)
                 | Inr quantityNumber \<Rightarrow>
                     let recyclingId = ''RECYCLING_'' @ Date_now rt @ ''_'' @ random36 rt;
                         blockchainRecyclingData =
                           [(''recyclingId'', Str recyclingId),
                            (''wasteId'', wasteId),
                            (''recyclerId'', or_js (getProp reqBody ''recyclerId'')
                                              (or_js (getProp recyclingData ''recyclerId'')
                                                 (Str ''recycler_001''))),
                            (''recyclingDate'', or_js (getProp recyclingData ''recyclingDate'')
                                                 (Str (toISOString rt 0))),
                            (''recycledProduct'', recycledProduct),
                            (''quantity'', Num quantityNumber),
                            (''method'', method),
                            (''qualityGrade'', or_js (getProp recyclingData ''qualityGrade'')
                                                (Str ''Standard'')),
                            (''processingTime'', or_js (getProp recyclingData ''processingTime'')
                                                  (Str ''7 days'')),
                            (''environmentalImpact'', or_js (getProp recyclingData ''environmentalImpact'')
                                                       (Str ''Positive'')),
                            (''certifications'', or_js (getProp recyclingData ''certifications'')
                                                  (Arr [Str ''Standard''])),
                            (''status'', Str ''COMPLETED''),
                            (''timestamp'', Str (toISOString rt 1))];
                         newRecycling = Obj ((''id'', Str recyclingId) # blockchainRecyclingData)
                     in if blockchainInitialized st then
                          (case submitTransaction blockchainClient ''recycler'' ''CreateRecycling''
                                  [Str recyclingId,
                                   Str (JSON_stringify rt (Obj blockchainRecyclingData))] of
                             Inr result \<Rightarrow>
                               (let linkResult = submitTransaction blockchainClient ''recycler''
                                                   ''LinkRecyclingToWaste'' [wasteId, Str recyclingId]
                                in (st\<lparr>recyclings := recyclings st @ [newRecycling]\<rparr>,
                                    \<lparr>statusCode = 201,
                                     body = Obj [(''success'', Bool True),
                                                 (''message'',
                                                  Str ''Recycling successfully recorded on blockchain''),
                                                 (''data'', newRecycling),
                                                 (''blockchainTxId'',
                                                  or_js (optProp result ''transactionId'') (Str ''pending'')),
                                                 (''source'', Str ''blockchain'')]\<rparr>))
                           | Inl message \<Rightarrow>
                               (st\<lparr>recyclings := recyclings st @ [newRecycling]\<rparr>,
                                \<lparr>statusCode = 201,
                                 body = Obj [(''success'', Bool True),
                                             (''message'',
                                              Str ''Recycling added to temporary storage (blockchain unavailable)''),
                                             (''data'', newRecycling),
                                             (''warning'',
                                              Str (''Blockchain temporarily unavailable: '' @ message)),
                                             (''source'', Str ''fallback'')]\<rparr>))
                        else
                          (st\<lparr>recyclings := recyclings st @ [newRecycling]\<rparr>,
                           \<lparr>statusCode = 201,
                            body = Obj [(''success'', Bool True),
                                        (''message'',
                                         Str ''Recycling added to temporary storage (blockchain initializing)''),
                                        (''data'', newRecycling),
                                        (''source'', Str ''temporary'')]\<rparr>)))"

definition listRecyclings :: "runtime \<Rightarrow> BlockchainClient \<Rightarrow> recyclingController \<Rightarrow> response" where
  "listRecyclings rt blockchainClient st =
     (if blockchainInitialized st then
        (case queryAll blockchainClient ''recycler'' ''GetAllRecyclings'' [] of
           Inr blockchainRecyclings \<Rightarrow>
             if truthy blockchainRecyclings then
               (case lengthPositive rt blockchainRecyclings of
                  Inl thrown \<Rightarrow> listResponse rt (recyclings st) ''fallback''
                | Inr nonEmpty \<Rightarrow>
                    if nonEmpty then
                      (case mapParse rt blockchainRecyclings of
                         Some recyclingList \<Rightarrow> listResponse rt recyclingList ''blockchain''
                       | None \<Rightarrow> listResponse rt (recyclings st) ''fallback'')
                    else listResponse rt (recyclings st) ''temporary'')
             else listResponse rt (recyclings st) ''temporary''
         | Inl message \<Rightarrow> listResponse rt (recyclings st) ''fallback'')
      else listResponse rt (recyclings st) ''temporary'')"

definition getRecyclingById ::
  "runtime \<Rightarrow> BlockchainClient \<Rightarrow> recyclingController \<Rightarrow> string \<Rightarrow> response" where
  "getRecyclingById rt blockchainClient st recyclingId =
     (if recyclingId = [] then
        \<lparr>statusCode = 400, body = Obj [(''error'', Str ''Missing recyclingId parameter'')]\<rparr>
      else
        case (if blockchainInitialized st
              then fromLedger rt (query blockchainClient ''recycler'' ''GetRecycling''
                                    [Str recyclingId])
              else None) of
          Some recyclingData \<Rightarrow>
            \<lparr>statusCode = 200,
             body = Obj [(''success'', Bool True), (''data'', recyclingData),
                         (''source'', Str ''blockchain'')]\<rparr>
        | None \<Rightarrow>
            (case find (\<lambda>r. getProp r ''id'' = Str recyclingId
                              \<or> getProp r ''recyclingId'' = Str recyclingId) (recyclings st) of
               Some recycling \<Rightarrow>
                 \<lparr>statusCode = 200,
                  body = Obj [(''success'', Bool True), (''data'', recycling),
                              (''source'', Str (if blockchainInitialized st then ''fallback''
                                               else ''temporary''))]\<rparr>
             | None \<Rightarrow>
                 \<lparr>statusCode = 404,
                  body = Obj [(''error'', Str ''Recycling not found''),
                              (''recyclingId'', Str recyclingId)]\<rparr>))"

definition getRecyclingsByWasteId ::
  "runtime \<Rightarrow> BlockchainClient \<Rightarrow> recyclingController \<Rightarrow> string \<Rightarrow> response" where
  "getRecyclingsByWasteId rt blockchainClient st wasteId =
     (if wasteId = [] then
        \<lparr>statusCode = 400, body = Obj [(''error'', Str ''Missing wasteId parameter'')]\<rparr>
      else if blockchainInitialized st then
        (case query blockchainClient ''recycler'' ''GetRecyclingsByWasteId'' [Str wasteId] of
           Inr blockchainRecyclings \<Rightarrow>
             if truthy blockchainRecyclings then
               (case lengthPositive rt blockchainRecyclings of
                  Inl thrown \<Rightarrow>
                    byWasteResponse rt
                      (filter (\<lambda>r. getProp r ''wasteId'' = Str wasteId) (recyclings st))
                      wasteId ''fallback''
                | Inr nonEmpty \<Rightarrow>
                    if nonEmpty then
                      (case mapParse rt blockchainRecyclings of
                         Some relatedRecyclings \<Rightarrow>
                           byWasteResponse rt relatedRecyclings wasteId ''blockchain''
                       | None \<Rightarrow>
                           byWasteResponse rt
                             (filter (\<lambda>r. getProp r ''wasteId'' = Str wasteId) (recyclings st))
                             wasteId ''fallback'')
                    else byWasteResponse rt [] wasteId ''temporary'')
             else byWasteResponse rt [] wasteId ''temporary''
         | Inl message \<Rightarrow>
             byWasteResponse rt
               (filter (\<lambda>r. getProp r ''wasteId'' = Str wasteId) (recyclings st))
               wasteId ''fallback'')
      else
        byWasteResponse rt
          (filter (\<lambda>r. getProp r ''wasteId'' = Str wasteId) (recyclings st))
          wasteId ''temporary'')"

section \<open>Notions used by the properties\<close>

subsection \<open>Requests that pass validation\<close>

text \<open>
  A create request passes validation when neither of the two checks at the head of its
  handler answers 400.
\<close>

definition validWasteRequest :: "jsval \<Rightarrow> bool" where
  "validWasteRequest reqBody =
     (let wasteData = getProp reqBody ''wasteData''
      in truthy wasteData \<and> truthy (getProp wasteData ''type'') \<and>
         truthy (getProp wasteData ''quantity'') \<and> truthy (getProp wasteData ''harvestDate'') \<and>
         truthy (getProp wasteData ''status''))"

definition validExtractionRequest :: "jsval \<Rightarrow> bool" where
  "validExtractionRequest reqBody =
     (let extractionData = getProp reqBody ''extractionData''
      in truthy extractionData \<and> truthy (getProp extractionData ''wasteId'') \<and>
         truthy (getProp extractionData ''productType'') \<and>
         truthy (getProp extractionData ''quantity'') \<and>
         truthy (getProp extractionData ''quality''))"

definition validRecyclingRequest :: "jsval \<Rightarrow> bool" where
  "validRecyclingRequest reqBody =
     (let recyclingData = getProp reqBody ''recyclingData''
      in truthy recyclingData \<and> truthy (getProp recyclingData ''wasteId'') \<and>
         truthy (getProp recyclingData ''recycledProduct'') \<and>
         truthy (getProp recyclingData ''quantity'') \<and>
         truthy (getProp recyclingData ''method''))"

text \<open>
  An empty or not-found answer of the ledger: the empty list or \<open>null\<close>.
\<close>

definition emptyAnswer :: "string + jsval \<Rightarrow> bool" where
  "emptyAnswer answer = (answer = Inr (Arr []) \<or> answer = Inr Null)"

definition sourceOf :: "response \<Rightarrow> jsval" where
  "sourceOf res = getProp (body res) ''source''"

definition dataOf :: "response \<Rightarrow> jsval" where
  "dataOf res = getProp (body res) ''data''"

subsection \<open>Stored entities\<close>

text \<open>
  The chaincode has no reader for one extraction or recycling; these read the key the create
  operation writes.
\<close>

definition extractionAt :: "world \<Rightarrow> string \<Rightarrow> Extraction option" where
  "extractionAt s ident = map_option unmarshalExtraction (GetState s (''EXTRACTION_'' @ ident))"

definition recyclingAt :: "world \<Rightarrow> string \<Rightarrow> Recycling option" where
  "recyclingAt s ident = map_option unmarshalRecycling (GetState s (''RECYCLING_'' @ ident))"

definition wasteAt :: "world \<Rightarrow> string \<Rightarrow> Waste option" where
  "wasteAt s ident = (case ReadWaste s ident of Inl err \<Rightarrow> None | Inr waste \<Rightarrow> Some waste)"

text \<open>
  The invariant behind the status property: a stored waste document has one of the three
  statuses, and a document of another kind lies under a key of its own prefix.
\<close>

definition hasPrefix :: "string \<Rightarrow> string \<Rightarrow> bool" where
  "hasPrefix p k = (take (length p) k = p)"

fun docOk :: "string \<Rightarrow> doc \<Rightarrow> bool" where
  "docOk k (WasteDoc w) = validStatus (Waste.Status w)"
| "docOk k (ExtractionDoc e) = hasPrefix ''EXTRACTION_'' k"
| "docOk k (RecyclingDoc r) = hasPrefix ''RECYCLING_'' k"

definition worldOk :: "world \<Rightarrow> bool" where
  "worldOk s = list_all (\<lambda>(k, d). docOk k d) s"

text \<open>The same invariant for the chaincode of \<open>waste.go\<close>, which stores wastes only.\<close>

definition worldOk_basic :: "world_basic \<Rightarrow> bool" where
  "worldOk_basic s = list_all (\<lambda>(k, w). validStatus (Waste_basic.Status w)) s"

subsection \<open>Example inputs\<close>

definition exampleClock :: clock where
  "exampleClock i = ''2025-06-01T10:00:00Z''"

definition laterClock :: clock where
  "laterClock i = ''2025-06-02T10:00:00Z''"

text \<open>
  The scenario of the specification: waste \<open>WASTE_A\<close> (50 units of branches), then an
  extraction of 10 units referencing it.
\<close>

definition scenarioWaste :: "error + world" where
  "scenarioWaste =
     CreateWaste exampleClock [] ''WASTE_A'' ''Branches'' (Finite 50) ''2025-06-01'' ''farmer1''
       ''Farm Block A'' ''Andalusia''"

definition scenarioWasteRecord :: Waste where
  "scenarioWasteRecord =
     \<lparr>Waste.ID = ''WASTE_A'', Type = ''Branches'', Quantity = Finite 50,
      HarvestDate = ''2025-06-01'', Status = ''COLLECTED'', Owner = ''farmer1'',
      Farm = ''Farm Block A'', Location = ''Andalusia'',
      CreatedAt = ''2025-06-01T10:00:00Z'', UpdatedAt = ''2025-06-01T10:00:00Z'',
      History = [\<lparr>Timestamp = ''2025-06-01T10:00:00Z'', Action = ''CREATED'',
                  Actor = ''farmer1'',
                  Details = ''Waste collected: Branches, Quantity: 50.00''\<rparr>]\<rparr>"

definition scenarioWorld :: world where
  "scenarioWorld = [(''WASTE_WASTE_A'', WasteDoc scenarioWasteRecord)]"

definition scenarioProcessedRecord :: Waste where
  "scenarioProcessedRecord =
     scenarioWasteRecord
       \<lparr>Waste.Status := ''PROCESSED'', Waste.UpdatedAt := ''2025-06-02T10:00:00Z'',
        Waste.History := Waste.History scenarioWasteRecord @
          [\<lparr>Timestamp = ''2025-06-02T10:00:00Z'', Action = ''STATUS_CHANGED'',
            Actor = ''processor1'',
            Details = ''Status changed from COLLECTED to PROCESSED. Used for Olive oil extraction''\<rparr>]\<rparr>"

definition scenarioExtractionRecord :: Extraction where
  "scenarioExtractionRecord =
     \<lparr>Extraction.ID = ''EXTR_A'', WasteID = ''WASTE_A'', ProductType = ''Olive oil'',
      Quantity = Finite 10, Quality = ''A'', ExtractionDate = ''2025-06-02T10:00:00Z'',
      Processor = ''processor1'', Status = ''PROCESSED'', CreatedAt = ''2025-06-02T10:00:00Z'',
      History = [\<lparr>Timestamp = ''2025-06-02T10:00:00Z'', Action = ''EXTRACTED'',
                  Actor = ''processor1'',
                  Details = ''Extracted Olive oil (10.00 units) from waste WASTE_A''\<rparr>]\<rparr>"

definition scenarioWorld2 :: world where
  "scenarioWorld2 =
     [(''WASTE_WASTE_A'', WasteDoc scenarioProcessedRecord),
      (''EXTRACTION_EXTR_A'', ExtractionDoc scenarioExtractionRecord)]"

definition scenarioExtraction :: "error + world" where
  "scenarioExtraction =
     CreateExtraction laterClock scenarioWorld ''EXTR_A'' ''WASTE_A'' ''Olive oil''
       (Finite 10) ''A'' ''processor1''"

definition scenarioRecycling :: "error + world" where
  "scenarioRecycling =
     CreateRecycling laterClock scenarioWorld ''REC_A'' ''WASTE_A'' ''Compost''
       (Finite 25) ''Composting'' ''recycler1''"

text \<open>The first event of a history, and the histories stored under an id.\<close>

definition firstAction :: "History list \<Rightarrow> string option" where
  "firstAction h = (case h of [] \<Rightarrow> None | e # rest \<Rightarrow> Some (Action e))"

definition wasteHistoryAt :: "world \<Rightarrow> string \<Rightarrow> History list" where
  "wasteHistoryAt s ident = (case wasteAt s ident of None \<Rightarrow> [] | Some w \<Rightarrow> Waste.History w)"

definition extractionHistoryAt :: "world \<Rightarrow> string \<Rightarrow> History list" where
  "extractionHistoryAt s ident =
     (case extractionAt s ident of None \<Rightarrow> [] | Some e \<Rightarrow> Extraction.History e)"

definition recyclingHistoryAt :: "world \<Rightarrow> string \<Rightarrow> History list" where
  "recyclingHistoryAt s ident =
     (case recyclingAt s ident of None \<Rightarrow> [] | Some r \<Rightarrow> Recycling.History r)"

definition statusAt :: "world \<Rightarrow> string \<Rightarrow> string option" where
  "statusAt s ident = map_option Waste.Status (wasteAt s ident)"

definition statusAt_basic :: "world_basic \<Rightarrow> string \<Rightarrow> string option" where
  "statusAt_basic s ident = map_option Waste_basic.Status (map_of s ident)"

text \<open>
  A world state written in an order that is not the order of the keys: extraction \<open>EXTR_B\<close>
  is stored before \<open>EXTR_A\<close>, both for waste \<open>W\<close>.
\<close>

definition eventAt :: "string \<Rightarrow> string \<Rightarrow> History" where
  "eventAt t a = \<lparr>Timestamp = t, Action = a, Actor = ''actor'', Details = []\<rparr>"

definition exampleWaste :: Waste where
  "exampleWaste =
     \<lparr>Waste.ID = ''W'', Type = ''Branches'', Quantity = Finite 50, HarvestDate = ''2025-06-01'',
      Status = ''PROCESSED'', Owner = ''farmer1'', Farm = [], Location = [],
      CreatedAt = ''t0'', UpdatedAt = ''t9'',
      History = [eventAt ''t0'' ''CREATED'', eventAt ''t9'' ''STATUS_CHANGED'']\<rparr>"

definition exampleExtraction :: "string \<Rightarrow> string \<Rightarrow> string \<Rightarrow> Extraction" where
  "exampleExtraction ident wasteId t =
     \<lparr>Extraction.ID = ident, WasteID = wasteId, ProductType = ''Olive oil'',
      Quantity = Finite 10, Quality = ''A'', ExtractionDate = t, Processor = ''processor1'',
      Status = ''PROCESSED'', CreatedAt = t, History = [eventAt t ''EXTRACTED'']\<rparr>"

definition exampleWorld :: world where
  "exampleWorld =
     [(''EXTRACTION_EXTR_B'', ExtractionDoc (exampleExtraction ''EXTR_B'' ''W'' ''t1'')),
      (''WASTE_W'', WasteDoc exampleWaste),
      (''EXTRACTION_EXTR_0'', ExtractionDoc (exampleExtraction ''EXTR_0'' ''OTHER'' ''t2'')),
      (''EXTRACTION_EXTR_A'', ExtractionDoc (exampleExtraction ''EXTR_A'' ''W'' ''t3''))]"

text \<open>Ledger initialisation followed by a status update with a status of the caller's.\<close>

definition burnedTxs :: "(clock \<times> tx) list" where
  "burnedTxs =
     [(exampleClock, InitLedgerTx),
      (laterClock, UpdateWasteStatusTx ''waste1'' ''BURNED'' ''farmer1'' ''test'')]"

definition scenarioTxs :: "(clock \<times> tx) list" where
  "scenarioTxs =
     [(exampleClock, InitLedgerTx),
      (exampleClock, CreateWasteTx ''WASTE_A'' ''Branches'' (Finite 50) ''2025-06-01'' ''farmer1''
                       ''Farm Block A'' ''Andalusia''),
      (laterClock, CreateExtractionTx ''EXTR_A'' ''WASTE_A'' ''Olive oil'' (Finite 10) ''A''
                     ''processor1''),
      (laterClock, UpdateWasteStatusTx ''waste1'' ''RECYCLED'' ''farmer1'' ''done'')]"

text \<open>
  Transactions of the chaincode of \<open>waste.go\<close>: its ledger initialisation alone, a create
  with a status of the caller's, and a create followed by a status update, both with a
  status of the three.
\<close>

definition seedTxs_basic :: "(clock \<times> tx_basic) list" where
  "seedTxs_basic = [(exampleClock, InitLedgerTx_basic)]"

definition burnedTxs_basic :: "(clock \<times> tx_basic) list" where
  "burnedTxs_basic =
     [(exampleClock,
       CreateWasteTx_basic ''w1'' ''Branches'' ''50'' ''2025-06-01'' ''BURNED'' ''farmer1'')]"

definition scenarioTxs_basic :: "(clock \<times> tx_basic) list" where
  "scenarioTxs_basic =
     [(exampleClock,
       CreateWasteTx_basic ''w1'' ''Branches'' ''50'' ''2025-06-01'' ''COLLECTED'' ''farmer1''),
      (laterClock, UpdateWasteStatusTx_basic ''w1'' ''PROCESSED'')]"

text \<open>
  A runtime, a client whose ledger is unreachable, and requests. The number functions of the
  example runtime are stand-ins that agree with JavaScript on the whole numbers the examples
  use. \<open>noStringValue\<close> is the value of the JSON text \<open>{"toString": null}\<close>: it is
  truthy and has no string conversion.
\<close>

definition exampleRuntime :: runtime where
  "exampleRuntime =
     \<lparr>NumberToString =
        (\<lambda>x. case x of
                Finite r \<Rightarrow> (if r < 0 then ''-'' else []) @ decimal (nat \<lfloor>\<bar>r\<bar>\<rfloor>)
              | NaN \<Rightarrow> ''NaN'' | PosInf \<Rightarrow> ''Infinity'' | NegInf \<Rightarrow> ''-Infinity''),
      StringToNumber = (\<lambda>s. case Atoi s of None \<Rightarrow> NaN | Some n \<Rightarrow> Finite (of_int n)),
      parseNumberPrefix = (\<lambda>s. case Atoi s of None \<Rightarrow> NaN | Some n \<Rightarrow> Finite (of_int n)),
      conversionError = ''Cannot convert object to primitive value'',
      JSON_stringify = (\<lambda>v. ''{}''),
      JSON_parse = (\<lambda>text. None),
      Date_now = ''1748772000000'',
      random36 = ''k3j9x0q2a'',
      toISOString = (\<lambda>i. ''2025-06-01T10:00:00.000Z'')\<rparr>"

definition unreachableClient :: BlockchainClient where
  "unreachableClient =
     \<lparr>initialize = Inr True,
      submitTransaction = (\<lambda>orgName functionName args. Inl ''connect ECONNREFUSED''),
      query = (\<lambda>orgName functionName args. Inl ''connect ECONNREFUSED''),
      queryAll = (\<lambda>orgName functionName args. Inl ''connect ECONNREFUSED''),
      getHistory = (\<lambda>orgName functionName args. Inl ''connect ECONNREFUSED'')\<rparr>"

definition noStringValue :: jsval where
  "noStringValue = Obj [(''toString'', Null)]"

definition wasteRequest :: "jsval \<Rightarrow> jsval" where
  "wasteRequest quantity =
     Obj [(''wasteData'', Obj [(''type'', Str ''Branches''), (''quantity'', quantity),
                               (''harvestDate'', Str ''2025-06-01''),
                               (''status'', Str ''COLLECTED'')])]"

definition extractionRequestFor :: "jsval \<Rightarrow> jsval" where
  "extractionRequestFor wasteId =
     Obj [(''extractionData'', Obj [(''wasteId'', wasteId),
                                    (''productType'', Str ''Olive oil''),
                                    (''quantity'', Num (Finite 10)),
                                    (''quality'', Str ''A'')])]"

definition extractionRequest :: jsval where
  "extractionRequest =
     Obj [(''extractionData'', Obj [(''wasteId'', Str ''WASTE_DEFAULT_1''),
                                    (''productType'', Str ''Olive oil''),
                                    (''quantity'', Num (Finite 10)),
                                    (''quality'', Str ''A'')])]"

definition recyclingRequest :: jsval where
  "recyclingRequest =
     Obj [(''recyclingData'', Obj [(''wasteId'', Str ''WASTE_DEFAULT_2''),
                                   (''recycledProduct'', Str ''Compost''),
                                   (''quantity'', Num (Finite 25)),
                                   (''method'', Str ''Composting'')])]"

text \<open>The record that \<open>addWaste\<close> builds from \<open>wasteRequest (Num (Finite 50))\<close>.\<close>

definition exampleWasteRecord :: "(string \<times> jsval) list" where
  "exampleWasteRecord =
     [(''wasteId'', Str ''WASTE_1748772000000_k3j9x0q2a''),
      (''farmerId'', Str ''farmer_001''),
      (''type'', Str ''Branches''),
      (''quantity'', Num (Finite 50)),
      (''harvestDate'', Str ''2025-06-01''),
      (''status'', Str ''COLLECTED''),
      (''location'', Str ''Default Farm Location''),
      (''qualityGrade'', Str ''A''),
      (''moistureContent'', Str ''15%''),
      (''timestamp'', Str ''2025-06-01T10:00:00.000Z''),
      (''transferDate'', Null)]"

text \<open>The exported client with a wallet that opened, at fixed readings of the clock.\<close>

definition mockClient :: BlockchainClient where
  "mockClient = exportedClient exampleRuntime True ''1748772000001'' ''2025-06-01T10:00:00.001Z''"

definition startedWasteController :: wasteController where
  "startedWasteController = \<lparr>wasteController.blockchainInitialized = True, tempWastes = []\<rparr>"

definition startedExtractionController :: extractionController where
  "startedExtractionController =
     \<lparr>extractionController.blockchainInitialized = True,
      extractions = initialExtractions ''2025-06-01T09:00:00.000Z'' ''2025-06-01T09:00:00.001Z''\<rparr>"

definition startedRecyclingController :: recyclingController where
  "startedRecyclingController =
     \<lparr>recyclingController.blockchainInitialized = True,
      recyclings = initialRecyclings ''2025-06-01T09:00:00.000Z'' ''2025-06-01T09:00:00.001Z''\<rparr>"

section \<open>Properties of the chaincode\<close>

subsection \<open>The world state\<close>

lemma GetState_PutState:
  "GetState (PutState s k v) k' = (if k' = k then Some v else GetState s k')"
  by (simp add: GetState_def PutState_def update_conv')

lemma ReadWaste_PutState:
  "ReadWaste (PutState s k d) wid =
     (if ''WASTE_'' @ wid = k then Inr (unmarshalWaste d) else ReadWaste s wid)"
  by (simp add: ReadWaste_def GetState_PutState)

text \<open>A range scan is ordered by key and holds the entries of the range.\<close>

lemma GetStateByRange_sorted: "sorted (map fst (GetStateByRange s lo hi))"
  unfolding GetStateByRange_def
  by (metis sorted_filter sorted_sort_key)

lemma GetStateByRange_set:
  "set (GetStateByRange s lo hi) = {(k, v). (k, v) \<in> set s \<and> lo \<le> k \<and> k < hi}"
  by (auto simp: GetStateByRange_def)

lemma UpdateWasteStatus_result:
  assumes "ReadWaste s ident = Inr w"
  shows "UpdateWasteStatus now s ident newStatus actor details =
     (if isFinite (Waste.Quantity w) then
        Inr (PutState s (''WASTE_'' @ ident)
          (WasteDoc (w\<lparr>Waste.Status := newStatus, Waste.UpdatedAt := now 0,
             Waste.History := Waste.History w @
               [\<lparr>Timestamp = now 1, Action = ''STATUS_CHANGED'', Actor = actor,
                 Details = ''Status changed from '' @ Waste.Status w @ '' to '' @ newStatus
                             @ ''. '' @ details\<rparr>]\<rparr>)))
      else Inl UnsupportedValue)"
  using assms by (simp add: UpdateWasteStatus_def Let_def marshalWaste_def)

text \<open>The scenario of the specification, evaluated.\<close>

lemmas fmt_simps = roundHalfEven_def digit_def

lemma scenarioWaste_value: "scenarioWaste = Inr scenarioWorld"
  by (simp add: scenarioWaste_def scenarioWorld_def scenarioWasteRecord_def CreateWaste_def
      WasteExists_def GetState_def PutState_def marshalWaste_def exampleClock_def fmt_simps)

lemma scenarioWorld_read: "ReadWaste scenarioWorld ''WASTE_A'' = Inr scenarioWasteRecord"
  by (simp add: ReadWaste_def GetState_def scenarioWorld_def)

lemma scenarioExtraction_value: "scenarioExtraction = Inr scenarioWorld2"
  by (simp add: scenarioExtraction_def CreateExtraction_def scenarioWorld_read Let_def
      UpdateWasteStatus_result ReadWaste_PutState marshalExtraction_def
      scenarioWorld2_def scenarioProcessedRecord_def scenarioExtractionRecord_def
      laterClock_def fmt_simps)
     (simp add: GetState_def PutState_def scenarioWorld_def scenarioWasteRecord_def)

subsection \<open>Traceability\<close>

text \<open>The two loops of \<open>GetTraceability\<close> pick the first matching record of the scan.\<close>

lemma findExtraction_find:
  "findExtraction wasteId it ti =
     (case find (\<lambda>e. Extraction.WasteID e = wasteId) (map (\<lambda>(k, v). unmarshalExtraction v) it) of
        None \<Rightarrow> ti
      | Some e \<Rightarrow> ti\<lparr>Extraction := Some e, Chain := Chain ti @ Extraction.History e\<rparr>)"
  by (induction it) (auto simp: Let_def split: prod.splits)

lemma findRecycling_find:
  "findRecycling wasteId it ti =
     (case find (\<lambda>r. Recycling.WasteID r = wasteId) (map (\<lambda>(k, v). unmarshalRecycling v) it) of
        None \<Rightarrow> ti
      | Some r \<Rightarrow> ti\<lparr>Recycling := Some r, Chain := Chain ti @ Recycling.History r\<rparr>)"
  by (induction it) (auto simp: Let_def split: prod.splits)

text \<open>
  Claim C1. For a stored waste, \<open>GetTraceability\<close> returns the chain
  waste history, then extraction history, then recycling history, in that order and not
  sorted by time, where the extraction (recycling) is the first one, in the order in which
  \<open>GetAllExtractions\<close> (\<open>GetAllRecyclings\<close>) enumerates the store, whose waste reference is
  the waste id; a segment is left out when there is no such record, and with neither the
  chain is exactly the history of the waste.
\<close>

theorem GetTraceability_chain:
  assumes "ReadWaste s wasteId = Inr w"
  shows "\<exists>ti. GetTraceability s wasteId = Inr ti \<and>
           Waste ti = Some w \<and>
           Extraction ti = find (\<lambda>e. Extraction.WasteID e = wasteId) (GetAllExtractions s) \<and>
           Recycling ti = find (\<lambda>r. Recycling.WasteID r = wasteId) (GetAllRecyclings s) \<and>
           Chain ti = Waste.History w @ historyOf (Extraction ti) @ historyOfR (Recycling ti) \<and>
           (Extraction ti = None \<and> Recycling ti = None \<longrightarrow> Chain ti = Waste.History w)"
  using assms
  by (auto simp: GetTraceability_def Let_def findExtraction_find findRecycling_find
      GetAllExtractions_def GetAllRecyclings_def historyOf_def historyOfR_def split: option.splits)

lemma exampleWorld_extractions:
  "GetAllExtractions exampleWorld =
     [exampleExtraction ''EXTR_0'' ''OTHER'' ''t2'', exampleExtraction ''EXTR_A'' ''W'' ''t3'',
      exampleExtraction ''EXTR_B'' ''W'' ''t1'']"
  by (simp add: GetAllExtractions_def GetStateByRange_def exampleWorld_def)

lemma exampleWorld_recyclings: "GetAllRecyclings exampleWorld = []"
  by (simp add: GetAllRecyclings_def GetStateByRange_def exampleWorld_def)

lemma scenarioWorld_scans:
  "GetAllExtractions scenarioWorld = []" "GetAllRecyclings scenarioWorld = []"
  by (simp_all add: GetAllExtractions_def GetAllRecyclings_def GetStateByRange_def
      scenarioWorld_def)

text \<open>
  In the example world the extraction \<open>EXTR_A\<close> comes first in key order although
  \<open>EXTR_B\<close> was stored first, and the chain ends with its event after the two events of the
  waste, whose times are later. In the world of the scenario, where nothing references the
  waste, the chain is the history of the waste.
\<close>

theorem GetTraceability_chain_witness:
  "ReadWaste exampleWorld ''W'' = Inr exampleWaste \<and>
   (\<exists>ti. GetTraceability exampleWorld ''W'' = Inr ti \<and>
      Chain ti = [eventAt ''t0'' ''CREATED'', eventAt ''t9'' ''STATUS_CHANGED'',
                  eventAt ''t3'' ''EXTRACTED'']) \<and>
   ReadWaste scenarioWorld ''WASTE_A'' = Inr scenarioWasteRecord \<and>
   (\<exists>ti. GetTraceability scenarioWorld ''WASTE_A'' = Inr ti \<and>
      Extraction ti = None \<and> Recycling ti = None \<and>
      Chain ti = Waste.History scenarioWasteRecord)"
proof -
  have r: "ReadWaste exampleWorld ''W'' = Inr exampleWaste"
    by (simp add: ReadWaste_def GetState_def exampleWorld_def)
  from GetTraceability_chain [OF r] obtain ti where
    ti: "GetTraceability exampleWorld ''W'' = Inr ti"
        "Extraction ti = find (\<lambda>e. Extraction.WasteID e = ''W'') (GetAllExtractions exampleWorld)"
        "Recycling ti = find (\<lambda>r. Recycling.WasteID r = ''W'') (GetAllRecyclings exampleWorld)"
        "Chain ti = Waste.History exampleWaste @ historyOf (Extraction ti)
                      @ historyOfR (Recycling ti)"
    by blast
  have "Chain ti = [eventAt ''t0'' ''CREATED'', eventAt ''t9'' ''STATUS_CHANGED'',
                    eventAt ''t3'' ''EXTRACTED'']"
    using ti(2,3,4)
    by (simp add: exampleWorld_extractions exampleWorld_recyclings historyOf_def historyOfR_def
        exampleExtraction_def exampleWaste_def)
  with ti(1) have 1: "\<exists>ti. GetTraceability exampleWorld ''W'' = Inr ti \<and>
      Chain ti = [eventAt ''t0'' ''CREATED'', eventAt ''t9'' ''STATUS_CHANGED'',
                  eventAt ''t3'' ''EXTRACTED'']"
    by blast
  from GetTraceability_chain [OF scenarioWorld_read] obtain tj where
    tj: "GetTraceability scenarioWorld ''WASTE_A'' = Inr tj"
        "Extraction tj = find (\<lambda>e. Extraction.WasteID e = ''WASTE_A'')
                           (GetAllExtractions scenarioWorld)"
        "Recycling tj = find (\<lambda>r. Recycling.WasteID r = ''WASTE_A'')
                          (GetAllRecyclings scenarioWorld)"
        "Extraction tj = None \<and> Recycling tj = None
           \<longrightarrow> Chain tj = Waste.History scenarioWasteRecord"
    by blast
  from tj(2,3) have n: "Extraction tj = None" "Recycling tj = None"
    by (simp_all add: scenarioWorld_scans)
  with tj(1,4) have 2: "\<exists>ti. GetTraceability scenarioWorld ''WASTE_A'' = Inr ti \<and>
      Extraction ti = None \<and> Recycling ti = None \<and>
      Chain ti = Waste.History scenarioWasteRecord"
    by blast
  from r 1 scenarioWorld_read 2 show ?thesis by blast
qed

text \<open>
  The scan of the extractions ends below the key \<open>EXTRACTION_~\<close>: an extraction whose id
  starts with the byte \<open>~\<close> (or a larger one) is stored and is not enumerated.
\<close>

lemma scan_ends_below_tilde:
  "GetAllExtractions [(''EXTRACTION_~1'', ExtractionDoc e)] = []"
  by (simp add: GetAllExtractions_def GetStateByRange_def)

subsection \<open>Creating an extraction or a recycling for a missing waste\<close>

text \<open>
  Claim C3. When no waste with the waste id is stored, \<open>CreateExtraction\<close> and
  \<open>CreateRecycling\<close> fail with the error \<open>source waste not found\<close> and write nothing: the
  world state after the call is the world state before it, and no extraction or recycling
  record appears under the id.
\<close>

theorem create_with_missing_waste:
  assumes "\<not> WasteExists s wasteId"
  shows "CreateExtraction now s ident wasteId productType quantity quality processor
           = Inl (SourceWasteNotFound (WasteDoesNotExist wasteId)) \<and>
         CreateRecycling now s ident' wasteId recycledProduct quantity' method recycler
           = Inl (SourceWasteNotFound (WasteDoesNotExist wasteId)) \<and>
         commit s (CreateExtraction now s ident wasteId productType quantity quality processor) = s \<and>
         commit s (CreateRecycling now s ident' wasteId recycledProduct quantity' method recycler) = s \<and>
         (extractionAt s ident = None \<longrightarrow>
            extractionAt (commit s (CreateExtraction now s ident wasteId productType quantity quality
               processor)) ident = None) \<and>
         (recyclingAt s ident' = None \<longrightarrow>
            recyclingAt (commit s (CreateRecycling now s ident' wasteId recycledProduct quantity'
               method recycler)) ident' = None)"
  using assms
  by (simp add: CreateExtraction_def CreateRecycling_def ReadWaste_def WasteExists_def commit_def)

theorem create_with_missing_waste_witness:
  "\<not> WasteExists [] ''WASTE_X'' \<and>
   CreateExtraction exampleClock [] ''EXTR_X'' ''WASTE_X'' ''Olive oil'' (Finite 10) ''A''
       ''processor1''
     = Inl (SourceWasteNotFound (WasteDoesNotExist ''WASTE_X'')) \<and>
   extractionAt (commit [] (CreateExtraction exampleClock [] ''EXTR_X'' ''WASTE_X'' ''Olive oil''
       (Finite 10) ''A'' ''processor1'')) ''EXTR_X'' = None"
proof -
  have h: "\<not> WasteExists [] ''WASTE_X''" by (simp add: WasteExists_def GetState_def)
  have e: "extractionAt [] ''EXTR_X'' = None" by (simp add: extractionAt_def GetState_def)
  from create_with_missing_waste [OF h, of exampleClock "''EXTR_X''" "''Olive oil''"
      "Finite 10" "''A''" "''processor1''"] e h
  show ?thesis by blast
qed

subsection \<open>Status updates\<close>

text \<open>
  Claim C9. A status update that succeeds leaves the id, type, quantity, harvest date, owner,
  farm, location and creation time of the waste as they were, sets the status to the new
  status and appends exactly one event to the history.
\<close>

theorem UpdateWasteStatus_frame:
  assumes "ReadWaste s ident = Inr w"
    and "UpdateWasteStatus now s ident newStatus actor details = Inr s'"
  shows "\<exists>w' e. ReadWaste s' ident = Inr w' \<and>
           Waste.ID w' = Waste.ID w \<and> Waste.Type w' = Waste.Type w \<and>
           Waste.Quantity w' = Waste.Quantity w \<and> Waste.HarvestDate w' = Waste.HarvestDate w \<and>
           Waste.Owner w' = Waste.Owner w \<and> Waste.Farm w' = Waste.Farm w \<and>
           Waste.Location w' = Waste.Location w \<and> Waste.CreatedAt w' = Waste.CreatedAt w \<and>
           Waste.Status w' = newStatus \<and> Waste.History w' = Waste.History w @ [e]"
  using assms
  by (auto simp: UpdateWasteStatus_def Let_def marshalWaste_def ReadWaste_def GetState_PutState
      split: sum.splits if_splits option.splits)

theorem UpdateWasteStatus_frame_witness:
  "ReadWaste scenarioWorld ''WASTE_A'' = Inr scenarioWasteRecord \<and>
   UpdateWasteStatus laterClock scenarioWorld ''WASTE_A'' ''PROCESSED'' ''processor1'' ''manual''
     = Inr (commit scenarioWorld (UpdateWasteStatus laterClock scenarioWorld ''WASTE_A''
              ''PROCESSED'' ''processor1'' ''manual'')) \<and>
   (\<exists>w' e. ReadWaste (commit scenarioWorld (UpdateWasteStatus laterClock scenarioWorld ''WASTE_A''
              ''PROCESSED'' ''processor1'' ''manual'')) ''WASTE_A'' = Inr w' \<and>
      Waste.Quantity w' = Finite 50 \<and> Waste.Owner w' = ''farmer1'' \<and>
      Waste.Status w' = ''PROCESSED'' \<and>
      Waste.History w' = Waste.History scenarioWasteRecord @ [e])"
proof -
  let ?r = "UpdateWasteStatus laterClock scenarioWorld ''WASTE_A'' ''PROCESSED'' ''processor1''
              ''manual''"
  have u: "?r = Inr (commit scenarioWorld ?r)"
    by (simp add: UpdateWasteStatus_result [OF scenarioWorld_read] commit_def
        scenarioWasteRecord_def)
  from UpdateWasteStatus_frame [OF scenarioWorld_read u] obtain w' e where
    "ReadWaste (commit scenarioWorld ?r) ''WASTE_A'' = Inr w'"
    "Waste.Quantity w' = Waste.Quantity scenarioWasteRecord"
    "Waste.Owner w' = Waste.Owner scenarioWasteRecord"
    "Waste.Status w' = ''PROCESSED''"
    "Waste.History w' = Waste.History scenarioWasteRecord @ [e]"
    by blast
  then have "\<exists>w' e. ReadWaste (commit scenarioWorld ?r) ''WASTE_A'' = Inr w' \<and>
      Waste.Quantity w' = Finite 50 \<and> Waste.Owner w' = ''farmer1'' \<and>
      Waste.Status w' = ''PROCESSED'' \<and>
      Waste.History w' = Waste.History scenarioWasteRecord @ [e]"
    by (simp add: scenarioWasteRecord_def)
  with scenarioWorld_read u show ?thesis by blast
qed

subsection \<open>Creating an extraction\<close>

text \<open>
  Claim C4. Creating an extraction that references an existing waste sets the status of the
  waste to \<open>PROCESSED\<close> and appends exactly one event, with action \<open>STATUS_CHANGED\<close>, to
  its history; when the waste has just been created, its history is then the two events
  \<open>CREATED\<close>, \<open>STATUS_CHANGED\<close>.
\<close>

theorem CreateExtraction_marks_processed:
  "(ReadWaste s wasteId = Inr w \<and>
    CreateExtraction now s ident wasteId productType quantity quality processor = Inr s' \<longrightarrow>
      (\<exists>w' e. ReadWaste s' wasteId = Inr w' \<and> Waste.Status w' = ''PROCESSED'' \<and>
         Waste.History w' = Waste.History w @ [e] \<and> Action e = ''STATUS_CHANGED'')) \<and>
   (CreateWaste now0 s0 wasteId wasteType quantity0 harvestDate owner farm location = Inr s1 \<and>
    CreateExtraction now s1 ident wasteId productType quantity quality processor = Inr s2 \<longrightarrow>
      (\<exists>w2. ReadWaste s2 wasteId = Inr w2 \<and> Waste.Status w2 = ''PROCESSED'' \<and>
         map Action (Waste.History w2) = [''CREATED'', ''STATUS_CHANGED'']))"
proof (intro conjI impI; elim conjE)
  assume r: "ReadWaste s wasteId = Inr w"
    and c: "CreateExtraction now s ident wasteId productType quantity quality processor = Inr s'"
  from c r show "\<exists>w' e. ReadWaste s' wasteId = Inr w' \<and> Waste.Status w' = ''PROCESSED'' \<and>
         Waste.History w' = Waste.History w @ [e] \<and> Action e = ''STATUS_CHANGED''"
    by (auto simp: CreateExtraction_def Let_def marshalExtraction_def UpdateWasteStatus_result
        ReadWaste_PutState split: if_splits)
next
  assume cw: "CreateWaste now0 s0 wasteId wasteType quantity0 harvestDate owner farm location = Inr s1"
    and c: "CreateExtraction now s1 ident wasteId productType quantity quality processor = Inr s2"
  from cw obtain w1 where r1: "ReadWaste s1 wasteId = Inr w1"
    and h1: "map Action (Waste.History w1) = [''CREATED'']"
    by (auto simp: CreateWaste_def Let_def marshalWaste_def ReadWaste_PutState split: if_splits)
  from c r1 h1 show "\<exists>w2. ReadWaste s2 wasteId = Inr w2 \<and> Waste.Status w2 = ''PROCESSED'' \<and>
         map Action (Waste.History w2) = [''CREATED'', ''STATUS_CHANGED'']"
    by (auto simp: CreateExtraction_def Let_def marshalExtraction_def UpdateWasteStatus_result
        ReadWaste_PutState split: if_splits)
qed

text \<open>
  The create succeeds when the waste is stored, the id is free and the quantities are finite.
\<close>

lemma CreateExtraction_succeeds:
  assumes "ReadWaste s wasteId = Inr w" "isFinite (Waste.Quantity w)"
    and "GetState s (''EXTRACTION_'' @ ident) = None" "isFinite quantity"
  shows "\<exists>s'. CreateExtraction now s ident wasteId productType quantity quality processor
               = Inr s'"
  using assms
  by (simp add: CreateExtraction_def Let_def marshalExtraction_def UpdateWasteStatus_result
      ReadWaste_PutState del: fmt2f.simps)

theorem CreateExtraction_marks_processed_witness:
  "ReadWaste scenarioWorld ''WASTE_A'' = Inr scenarioWasteRecord \<and>
   CreateWaste exampleClock [] ''WASTE_A'' ''Branches'' (Finite 50) ''2025-06-01'' ''farmer1''
       ''Farm Block A'' ''Andalusia'' = Inr scenarioWorld \<and>
   CreateExtraction laterClock scenarioWorld ''EXTR_A'' ''WASTE_A'' ''Olive oil''
       (Finite 10) ''A'' ''processor1'' = Inr scenarioWorld2 \<and>
   (\<exists>w' e. ReadWaste scenarioWorld2 ''WASTE_A'' = Inr w' \<and> Waste.Status w' = ''PROCESSED'' \<and>
      Waste.History w' = Waste.History scenarioWasteRecord @ [e] \<and>
      Action e = ''STATUS_CHANGED'') \<and>
   (\<exists>w2. ReadWaste scenarioWorld2 ''WASTE_A'' = Inr w2 \<and> Waste.Status w2 = ''PROCESSED'' \<and>
      map Action (Waste.History w2) = [''CREATED'', ''STATUS_CHANGED''])"
proof -
  have a: "CreateWaste exampleClock [] ''WASTE_A'' ''Branches'' (Finite 50) ''2025-06-01''
             ''farmer1'' ''Farm Block A'' ''Andalusia'' = Inr scenarioWorld"
    using scenarioWaste_value by (simp add: scenarioWaste_def)
  have b: "CreateExtraction laterClock scenarioWorld ''EXTR_A'' ''WASTE_A'' ''Olive oil''
             (Finite 10) ''A'' ''processor1'' = Inr scenarioWorld2"
    using scenarioExtraction_value by (simp add: scenarioExtraction_def)
  note t = CreateExtraction_marks_processed [of scenarioWorld "''WASTE_A''" scenarioWasteRecord
      laterClock "''EXTR_A''" "''Olive oil''" "Finite 10" "''A''" "''processor1''" scenarioWorld2
      exampleClock "[]" "''Branches''" "Finite 50" "''2025-06-01''" "''farmer1''"
      "''Farm Block A''" "''Andalusia''" scenarioWorld scenarioWorld2]
  from t scenarioWorld_read b
  have 1: "\<exists>w' e. ReadWaste scenarioWorld2 ''WASTE_A'' = Inr w' \<and>
      Waste.Status w' = ''PROCESSED'' \<and>
      Waste.History w' = Waste.History scenarioWasteRecord @ [e] \<and>
      Action e = ''STATUS_CHANGED''"
    by blast
  from t a b
  have 2: "\<exists>w2. ReadWaste scenarioWorld2 ''WASTE_A'' = Inr w2 \<and>
      Waste.Status w2 = ''PROCESSED'' \<and>
      map Action (Waste.History w2) = [''CREATED'', ''STATUS_CHANGED'']"
    by blast
  from scenarioWorld_read a b 1 2 show ?thesis by blast
qed

subsection \<open>The first event of an entity\<close>

lemma scenarioRecycling_ok: "scenarioRecycling = Inr (commit scenarioWorld scenarioRecycling)"
  by (simp add: scenarioRecycling_def CreateRecycling_def scenarioWorld_read Let_def
      UpdateWasteStatus_result ReadWaste_PutState marshalRecycling_def commit_def
      scenarioWasteRecord_def)
     (simp add: GetState_def scenarioWorld_def)

lemma GetState_after_update:
  assumes "UpdateWasteStatus now s wid st actor details = Inr s'" "hd k \<noteq> CHR ''W''"
  shows "GetState s' k = GetState s k"
  using assms
  by (auto simp: UpdateWasteStatus_def Let_def marshalWaste_def GetState_PutState
      split: sum.splits if_splits)


text \<open>
  Claim C6, as the code has it. An entity that its create operation has just written has a
  history of exactly one event; the action of that event is \<open>CREATED\<close> for a waste,
  \<open>EXTRACTED\<close> for an extraction and \<open>RECYCLED\<close> for a recycling.
\<close>

theorem first_event_of_created_entity:
  "(CreateWaste now s ident wasteType quantity harvestDate owner farm location = Inr s1 \<longrightarrow>
      firstAction (wasteHistoryAt s1 ident) = Some ''CREATED'' \<and>
      length (wasteHistoryAt s1 ident) = 1) \<and>
   (CreateExtraction now s ident wasteId productType quantity quality processor = Inr s2 \<longrightarrow>
      firstAction (extractionHistoryAt s2 ident) = Some ''EXTRACTED'' \<and>
      length (extractionHistoryAt s2 ident) = 1) \<and>
   (CreateRecycling now s ident wasteId recycledProduct quantity method recycler = Inr s3 \<longrightarrow>
      firstAction (recyclingHistoryAt s3 ident) = Some ''RECYCLED'' \<and>
      length (recyclingHistoryAt s3 ident) = 1)"
proof (intro conjI impI)
  assume "CreateWaste now s ident wasteType quantity harvestDate owner farm location = Inr s1"
  then show "firstAction (wasteHistoryAt s1 ident) = Some ''CREATED''"
    and "length (wasteHistoryAt s1 ident) = 1"
    by (auto simp: CreateWaste_def Let_def marshalWaste_def wasteHistoryAt_def wasteAt_def
        ReadWaste_PutState firstAction_def split: if_splits)
next
  assume c: "CreateExtraction now s ident wasteId productType quantity quality processor = Inr s2"
  then obtain e where
    u: "UpdateWasteStatus (\<lambda>i. now (i + 3)) (PutState s (''EXTRACTION_'' @ ident) (ExtractionDoc e))
          wasteId ''PROCESSED'' processor (''Used for '' @ productType @ '' extraction'') = Inr s2"
    and e: "map Action (Extraction.History e) = [''EXTRACTED'']"
    by (auto simp: CreateExtraction_def Let_def marshalExtraction_def split: sum.splits if_splits)
  have "GetState s2 (''EXTRACTION_'' @ ident) = Some (ExtractionDoc e)"
    using GetState_after_update [OF u, of "''EXTRACTION_'' @ ident"]
    by (simp add: GetState_PutState)
  with e show "firstAction (extractionHistoryAt s2 ident) = Some ''EXTRACTED''"
    and "length (extractionHistoryAt s2 ident) = 1"
    by (auto simp: extractionHistoryAt_def extractionAt_def firstAction_def split: list.splits)
next
  assume c: "CreateRecycling now s ident wasteId recycledProduct quantity method recycler = Inr s3"
  then obtain r where
    u: "UpdateWasteStatus (\<lambda>i. now (i + 3)) (PutState s (''RECYCLING_'' @ ident) (RecyclingDoc r))
          wasteId ''RECYCLED'' recycler (''Recycled into '' @ recycledProduct @ '' using '' @ method)
          = Inr s3"
    and r: "map Action (Recycling.History r) = [''RECYCLED'']"
    by (auto simp: CreateRecycling_def Let_def marshalRecycling_def split: sum.splits if_splits)
  have "GetState s3 (''RECYCLING_'' @ ident) = Some (RecyclingDoc r)"
    using GetState_after_update [OF u, of "''RECYCLING_'' @ ident"]
    by (simp add: GetState_PutState)
  with r show "firstAction (recyclingHistoryAt s3 ident) = Some ''RECYCLED''"
    and "length (recyclingHistoryAt s3 ident) = 1"
    by (auto simp: recyclingHistoryAt_def recyclingAt_def firstAction_def split: list.splits)
qed


theorem first_event_of_created_entity_witness:
  "scenarioWaste = Inr scenarioWorld \<and>
   firstAction (wasteHistoryAt scenarioWorld ''WASTE_A'') = Some ''CREATED'' \<and>
   scenarioExtraction = Inr scenarioWorld2 \<and>
   firstAction (extractionHistoryAt scenarioWorld2 ''EXTR_A'') = Some ''EXTRACTED'' \<and>
   scenarioRecycling = Inr (commit scenarioWorld scenarioRecycling) \<and>
   firstAction (recyclingHistoryAt (commit scenarioWorld scenarioRecycling) ''REC_A'')
     = Some ''RECYCLED''"
proof -
  have a: "CreateWaste exampleClock [] ''WASTE_A'' ''Branches'' (Finite 50) ''2025-06-01''
             ''farmer1'' ''Farm Block A'' ''Andalusia'' = Inr scenarioWorld"
    using scenarioWaste_value by (simp add: scenarioWaste_def)
  have b: "CreateExtraction laterClock scenarioWorld ''EXTR_A'' ''WASTE_A'' ''Olive oil''
             (Finite 10) ''A'' ''processor1'' = Inr scenarioWorld2"
    using scenarioExtraction_value by (simp add: scenarioExtraction_def)
  have c: "CreateRecycling laterClock scenarioWorld ''REC_A'' ''WASTE_A'' ''Compost''
             (Finite 25) ''Composting'' ''recycler1''
             = Inr (commit scenarioWorld scenarioRecycling)"
    using scenarioRecycling_ok by (simp add: scenarioRecycling_def)
  from first_event_of_created_entity [of exampleClock "[]" "''WASTE_A''" "''Branches''"
      "Finite 50" "''2025-06-01''" "''farmer1''" "''Farm Block A''" "''Andalusia''"
      scenarioWorld] a
  have 1: "firstAction (wasteHistoryAt scenarioWorld ''WASTE_A'') = Some ''CREATED''"
    by blast
  from first_event_of_created_entity [of _ _ "''EXTR_A''" _ _ _ _ _ _ _ "''WASTE_A''"
      "''Olive oil''" "''A''" "''processor1''" scenarioWorld2] b
  have 2: "firstAction (extractionHistoryAt scenarioWorld2 ''EXTR_A'') = Some ''EXTRACTED''"
    by blast
  from first_event_of_created_entity [of _ _ "''REC_A''" _ _ _ _ _ _ _ "''WASTE_A''" _ _ _ _
      "''Compost''" "''Composting''" "''recycler1''"
      "commit scenarioWorld scenarioRecycling"] c
  have 3: "firstAction (recyclingHistoryAt (commit scenarioWorld scenarioRecycling) ''REC_A'')
             = Some ''RECYCLED''"
    by blast
  from 1 2 3 scenarioWaste_value scenarioExtraction_value scenarioRecycling_ok
  show ?thesis by blast
qed

text \<open>
  The first event of the extraction of the scenario is \<open>EXTRACTED\<close>, not \<open>CREATED\<close>.
\<close>

theorem extraction_first_event_counterexample:
  "scenarioExtraction = Inr scenarioWorld2 \<and>
   firstAction (extractionHistoryAt scenarioWorld2 ''EXTR_A'') = Some ''EXTRACTED'' \<and>
   firstAction (extractionHistoryAt scenarioWorld2 ''EXTR_A'') \<noteq> Some ''CREATED''"
  by (simp add: scenarioExtraction_value extractionHistoryAt_def extractionAt_def GetState_def
      scenarioWorld2_def scenarioExtractionRecord_def firstAction_def)


subsection \<open>The status of a waste\<close>

lemma set_update_subset: "set (AList.update k v s) \<subseteq> insert (k, v) (set s)"
  by (induction s) auto

lemma worldOk_PutState: "worldOk s \<Longrightarrow> docOk k d \<Longrightarrow> worldOk (PutState s k d)"
  using set_update_subset [of k d s]
  by (auto simp: worldOk_def PutState_def list_all_iff)

lemma worldOk_UpdateWasteStatus:
  assumes "worldOk s" "validStatus newStatus"
    and "UpdateWasteStatus now s ident newStatus actor details = Inr s'"
  shows "worldOk s'"
proof -
  from assms(3) obtain w where "s' = PutState s (''WASTE_'' @ ident) (WasteDoc w)"
    and "Waste.Status w = newStatus"
    by (auto simp: UpdateWasteStatus_def Let_def marshalWaste_def split: sum.splits if_splits)
  with assms(1,2) show ?thesis by (auto intro: worldOk_PutState)
qed

lemma worldOk_CreateWaste:
  assumes "worldOk s"
    and "CreateWaste now s ident wasteType quantity harvestDate owner farm location = Inr s'"
  shows "worldOk s'"
proof -
  from assms(2) obtain w where "s' = PutState s (''WASTE_'' @ ident) (WasteDoc w)"
    and "Waste.Status w = ''COLLECTED''"
    by (auto simp: CreateWaste_def Let_def marshalWaste_def split: sum.splits if_splits)
  with assms(1) show ?thesis by (auto intro: worldOk_PutState simp: validStatus_def)
qed

lemma worldOk_InitLedger:
  assumes "worldOk s" and "InitLedger now s = Inr s'"
  shows "worldOk s'"
proof -
  from assms(2) obtain w where "s' = PutState s ''WASTE_waste1'' (WasteDoc w)"
    and "Waste.Status w = ''COLLECTED''"
    by (auto simp: InitLedger_def sampleWastes_def marshalWaste_def)
  with assms(1) show ?thesis by (auto intro: worldOk_PutState simp: validStatus_def)
qed

lemma worldOk_CreateExtraction:
  assumes "worldOk s"
    and "CreateExtraction now s ident wasteId productType quantity quality processor = Inr s'"
  shows "worldOk s'"
proof -
  from assms(2) obtain d where
    u: "UpdateWasteStatus (\<lambda>i. now (i + 3)) (PutState s (''EXTRACTION_'' @ ident) (ExtractionDoc d))
          wasteId ''PROCESSED'' processor (''Used for '' @ productType @ '' extraction'') = Inr s'"
    by (auto simp: CreateExtraction_def Let_def marshalExtraction_def split: sum.splits if_splits)
  have "worldOk (PutState s (''EXTRACTION_'' @ ident) (ExtractionDoc d))"
    using assms(1) by (intro worldOk_PutState) (simp_all add: hasPrefix_def)
  then show ?thesis
    using _ u by (rule worldOk_UpdateWasteStatus) (simp add: validStatus_def)
qed

lemma worldOk_CreateRecycling:
  assumes "worldOk s"
    and "CreateRecycling now s ident wasteId recycledProduct quantity method recycler = Inr s'"
  shows "worldOk s'"
proof -
  from assms(2) obtain d where
    u: "UpdateWasteStatus (\<lambda>i. now (i + 3)) (PutState s (''RECYCLING_'' @ ident) (RecyclingDoc d))
          wasteId ''RECYCLED'' recycler (''Recycled into '' @ recycledProduct @ '' using '' @ method)
          = Inr s'"
    by (auto simp: CreateRecycling_def Let_def marshalRecycling_def split: sum.splits if_splits)
  have "worldOk (PutState s (''RECYCLING_'' @ ident) (RecyclingDoc d))"
    using assms(1) by (intro worldOk_PutState) (simp_all add: hasPrefix_def)
  then show ?thesis
    using _ u by (rule worldOk_UpdateWasteStatus) (simp add: validStatus_def)
qed

lemma worldOk_execute:
  assumes "worldOk s" "statusArgOk t"
  shows "worldOk (commit s (execute now s t))"
proof (cases "execute now s t")
  case (Inl err)
  then show ?thesis using assms(1) by (simp add: commit_def)
next
  case (Inr s')
  have "worldOk s'"
  proof (cases t)
    case InitLedgerTx
    with Inr have "InitLedger now s = Inr s'" by simp
    with assms(1) show ?thesis by (rule worldOk_InitLedger)
  next
    case (CreateWasteTx a b c d e f g)
    with Inr have "CreateWaste now s a b c d e f g = Inr s'" by simp
    with assms(1) show ?thesis by (rule worldOk_CreateWaste)
  next
    case (UpdateWasteStatusTx a b c d)
    with Inr have u: "UpdateWasteStatus now s a b c d = Inr s'" by simp
    from assms(2) UpdateWasteStatusTx have "validStatus b" by simp
    with assms(1) show ?thesis using u by (rule worldOk_UpdateWasteStatus)
  next
    case (CreateExtractionTx a b c d e f)
    with Inr have "CreateExtraction now s a b c d e f = Inr s'" by simp
    with assms(1) show ?thesis by (rule worldOk_CreateExtraction)
  next
    case (CreateRecyclingTx a b c d e f)
    with Inr have "CreateRecycling now s a b c d e f = Inr s'" by simp
    with assms(1) show ?thesis by (rule worldOk_CreateRecycling)
  qed
  with Inr show ?thesis by (simp add: commit_def)
qed

lemma worldOk_run:
  "worldOk s \<Longrightarrow> list_all (\<lambda>(now, t). statusArgOk t) txs \<Longrightarrow> worldOk (run s txs)"
proof (induction txs arbitrary: s)
  case Nil
  then show ?case by simp
next
  case (Cons a txs)
  obtain now t where a: "a = (now, t)" by (cases a)
  with Cons.prems have "worldOk (commit s (execute now s t))"
    by (intro worldOk_execute) simp_all
  with Cons a show ?case by simp
qed

lemma hasPrefixD: "hasPrefix p k \<Longrightarrow> \<exists>x. k = p @ x"
  unfolding hasPrefix_def by (metis append_take_drop_id)

lemma docOk_waste_key:
  assumes "docOk (''WASTE_'' @ ident) d"
  shows "validStatus (Waste.Status (unmarshalWaste d))"
proof (cases d)
  case (WasteDoc w)
  with assms show ?thesis by simp
next
  case (ExtractionDoc e)
  with assms have "hasPrefix ''EXTRACTION_'' (''WASTE_'' @ ident)" by simp
  then obtain x where "''WASTE_'' @ ident = ''EXTRACTION_'' @ x" using hasPrefixD by blast
  then have False by simp
  then show ?thesis ..
next
  case (RecyclingDoc r)
  with assms have "hasPrefix ''RECYCLING_'' (''WASTE_'' @ ident)" by simp
  then obtain x where "''WASTE_'' @ ident = ''RECYCLING_'' @ x" using hasPrefixD by blast
  then have False by simp
  then show ?thesis ..
qed

lemma worldOk_ReadWaste:
  assumes "worldOk s" "ReadWaste s ident = Inr w"
  shows "validStatus (Waste.Status w)"
proof -
  from assms(2) obtain d where d: "map_of s (''WASTE_'' @ ident) = Some d" "w = unmarshalWaste d"
    by (auto simp: ReadWaste_def GetState_def split: option.splits)
  from d(1) have "(''WASTE_'' @ ident, d) \<in> set s" by (rule map_of_SomeD)
  with assms(1) have "docOk (''WASTE_'' @ ident) d" by (auto simp: worldOk_def list_all_iff)
  with d(2) show ?thesis by (simp add: docOk_waste_key)
qed

lemma not_in_waste_range:
  "\<not> ''WASTE_'' \<le> ''EXTRACTION_'' @ x" "\<not> ''WASTE_'' \<le> ''RECYCLING_'' @ x"
  by simp_all

lemma docOk_waste_range:
  assumes "docOk k d" "''WASTE_'' \<le> k"
  shows "validStatus (Waste.Status (unmarshalWaste d))"
proof (cases d)
  case (WasteDoc w)
  with assms show ?thesis by simp
next
  case (ExtractionDoc e)
  with assms have "hasPrefix ''EXTRACTION_'' k" by simp
  then obtain x where "k = ''EXTRACTION_'' @ x" using hasPrefixD by blast
  with assms(2) not_in_waste_range(1) [of x] have False by blast
  then show ?thesis ..
next
  case (RecyclingDoc r)
  with assms have "hasPrefix ''RECYCLING_'' k" by simp
  then obtain x where "k = ''RECYCLING_'' @ x" using hasPrefixD by blast
  with assms(2) not_in_waste_range(2) [of x] have False by blast
  then show ?thesis ..
qed

lemma worldOk_GetAllWastes:
  assumes "worldOk s" "w \<in> set (GetAllWastes s)"
  shows "validStatus (Waste.Status w)"
proof -
  from assms(2) obtain k d where kd: "(k, d) \<in> set s" "''WASTE_'' \<le> k" "w = unmarshalWaste d"
    by (auto simp: GetAllWastes_def GetStateByRange_def)
  with assms(1) have "docOk k d" by (auto simp: worldOk_def list_all_iff)
  with kd show ?thesis by (simp add: docOk_waste_range)
qed

text \<open>The chaincode of \<open>waste.go\<close> keeps the same invariant, its seed apart.\<close>

lemma worldOk_basic_saveWaste:
  assumes "worldOk_basic s" "validStatus (Waste_basic.Status waste)"
  shows "worldOk_basic (saveWaste s waste)"
  using assms set_update_subset [of "Waste_basic.ID waste" waste s]
  by (auto simp: worldOk_basic_def saveWaste_def list_all_iff)

lemma worldOk_basic_GetWaste:
  assumes "worldOk_basic s" "GetWaste_basic s ident = Inr w"
  shows "validStatus (Waste_basic.Status w)"
proof -
  from assms(2) have "map_of s ident = Some w"
    by (simp add: GetWaste_basic_def split: option.splits)
  then have "(ident, w) \<in> set s" by (rule map_of_SomeD)
  with assms(1) show ?thesis by (auto simp: worldOk_basic_def list_all_iff)
qed

lemma worldOk_basic_execute:
  assumes "worldOk_basic s" "statusArgOk_basic t" "execute_basic now s t = Inr s'"
  shows "worldOk_basic s'"
proof (cases t)
  case InitLedgerTx_basic
  with assms(2) show ?thesis by simp
next
  case (CreateWasteTx_basic ident wasteType quantity harvestDate status owner)
  with assms(3) obtain qty where
    "s' = saveWaste s \<lparr>Waste_basic.ID = ident, Type = wasteType, Quantity = qty,
                    HarvestDate = harvestDate, Status = status, Owner = owner,
                    CreatedAt = now 0, UpdatedAt = now 1\<rparr>"
    by (auto simp: CreateWaste_basic_def split: if_splits option.splits)
  with assms(1,2) CreateWasteTx_basic show ?thesis
    by (simp add: worldOk_basic_saveWaste)
next
  case (UpdateWasteStatusTx_basic ident newStatus)
  with assms(3) obtain waste where
    "s' = saveWaste s (waste\<lparr>Waste_basic.Status := newStatus, Waste_basic.UpdatedAt := now 0\<rparr>)"
    by (auto simp: UpdateWasteStatus_basic_def split: sum.splits)
  with assms(1,2) UpdateWasteStatusTx_basic show ?thesis
    by (simp add: worldOk_basic_saveWaste)
qed

lemma worldOk_basic_run:
  assumes "worldOk_basic s" "list_all (\<lambda>(now, t). statusArgOk_basic t) txs"
  shows "worldOk_basic (run_basic s txs)"
  using assms
proof (induction txs arbitrary: s)
  case Nil
  then show ?case by simp
next
  case (Cons a txs)
  obtain now t where a: "a = (now, t)" by (cases a)
  from Cons.prems(2) a have t: "statusArgOk_basic t"
    and rest: "list_all (\<lambda>(now, t). statusArgOk_basic t) txs" by simp_all
  have "worldOk_basic (commit_basic s (execute_basic now s t))"
  proof (cases "execute_basic now s t")
    case (Inl err)
    with Cons.prems(1) show ?thesis by (simp add: commit_basic_def)
  next
    case (Inr s')
    with worldOk_basic_execute [OF Cons.prems(1) t Inr] show ?thesis
      by (simp add: commit_basic_def)
  qed
  from Cons.IH [OF this rest] a show ?case by simp
qed

text \<open>
  Claim C7, as the code has it. In every world state reached from the empty ledger, every
  stored waste, read by id or enumerated, has one of the statuses \<open>COLLECTED\<close>,
  \<open>PROCESSED\<close>, \<open>RECYCLED\<close>, provided that: in the chaincode with histories, the
  transactions are ledger initialisations, creates and status updates whose new status is one
  of the three; in the chaincode of \<open>waste.go\<close>, they are creates and status updates whose
  status argument is one of the three, its \<open>InitLedger\<close> left out.
\<close>

theorem status_stays_valid:
  "(list_all (\<lambda>(now, t). statusArgOk t) txs \<longrightarrow>
      (\<forall>ident w. ReadWaste (run [] txs) ident = Inr w \<longrightarrow> validStatus (Waste.Status w)) \<and>
      (\<forall>w \<in> set (GetAllWastes (run [] txs)). validStatus (Waste.Status w))) \<and>
   (list_all (\<lambda>(now, t). statusArgOk_basic t) txs_basic \<longrightarrow>
      (\<forall>ident w. GetWaste_basic (run_basic [] txs_basic) ident = Inr w
                 \<longrightarrow> validStatus (Waste_basic.Status w)) \<and>
      (\<forall>(k, w) \<in> set (run_basic [] txs_basic). validStatus (Waste_basic.Status w)))"
proof (intro conjI impI)
  assume "list_all (\<lambda>(now, t). statusArgOk t) txs"
  then have ok: "worldOk (run [] txs)"
    by (intro worldOk_run) (simp_all add: worldOk_def)
  from ok show "\<forall>ident w. ReadWaste (run [] txs) ident = Inr w \<longrightarrow> validStatus (Waste.Status w)"
    using worldOk_ReadWaste by blast
  from ok show "\<forall>w \<in> set (GetAllWastes (run [] txs)). validStatus (Waste.Status w)"
    using worldOk_GetAllWastes by blast
next
  assume "list_all (\<lambda>(now, t). statusArgOk_basic t) txs_basic"
  then have ok: "worldOk_basic (run_basic [] txs_basic)"
    by (intro worldOk_basic_run) (simp_all add: worldOk_basic_def)
  from ok show "\<forall>ident w. GetWaste_basic (run_basic [] txs_basic) ident = Inr w
                 \<longrightarrow> validStatus (Waste_basic.Status w)"
    using worldOk_basic_GetWaste by blast
  from ok show "\<forall>(k, w) \<in> set (run_basic [] txs_basic). validStatus (Waste_basic.Status w)"
    by (simp add: worldOk_basic_def list_all_iff)
qed

lemma scenarioTxs_ok: "list_all (\<lambda>(now, t). statusArgOk t) scenarioTxs"
  by (simp add: scenarioTxs_def validStatus_def)

lemma scenarioTxs_status: "statusAt (run [] scenarioTxs) ''waste1'' = Some ''RECYCLED''"
  by (simp add: scenarioTxs_def commit_def InitLedger_def sampleWastes_def marshalWaste_def
      marshalExtraction_def CreateWaste_def CreateExtraction_def WasteExists_def
      UpdateWasteStatus_def ReadWaste_PutState GetState_PutState Let_def statusAt_def wasteAt_def)
     (simp add: GetState_def)

lemma scenarioTxs_basic_ok: "list_all (\<lambda>(now, t). statusArgOk_basic t) scenarioTxs_basic"
  by (simp add: scenarioTxs_basic_def validStatus_def)

lemma scenarioTxs_basic_status:
  "statusAt_basic (run_basic [] scenarioTxs_basic) ''w1'' = Some ''PROCESSED''"
  by (simp add: scenarioTxs_basic_def commit_basic_def CreateWaste_basic_def Atoi_def
      isDigit_def digitVal_def parseDate_def daysIn_def saveWaste_def
      UpdateWasteStatus_basic_def GetWaste_basic_def statusAt_basic_def Let_def)

theorem status_stays_valid_witness:
  "list_all (\<lambda>(now, t). statusArgOk t) scenarioTxs \<and>
   statusAt (run [] scenarioTxs) ''waste1'' = Some ''RECYCLED'' \<and> validStatus ''RECYCLED'' \<and>
   list_all (\<lambda>(now, t). statusArgOk_basic t) scenarioTxs_basic \<and>
   statusAt_basic (run_basic [] scenarioTxs_basic) ''w1'' = Some ''PROCESSED'' \<and>
   validStatus ''PROCESSED''"
proof -
  from scenarioTxs_status obtain w where
    w: "ReadWaste (run [] scenarioTxs) ''waste1'' = Inr w" "Waste.Status w = ''RECYCLED''"
    by (auto simp: statusAt_def wasteAt_def split: sum.splits)
  from scenarioTxs_basic_status obtain b where
    b: "GetWaste_basic (run_basic [] scenarioTxs_basic) ''w1'' = Inr b"
       "Waste_basic.Status b = ''PROCESSED''"
    by (auto simp: statusAt_basic_def GetWaste_basic_def)
  note t = status_stays_valid [of scenarioTxs scenarioTxs_basic]
  from t scenarioTxs_ok w(1) have "validStatus (Waste.Status w)" by blast
  moreover from t scenarioTxs_basic_ok b(1) have "validStatus (Waste_basic.Status b)" by blast
  ultimately show ?thesis
    using w(2) b(2) scenarioTxs_ok scenarioTxs_status scenarioTxs_basic_ok
      scenarioTxs_basic_status by simp
qed

text \<open>
  Neither chaincode checks a status it is given. In the chaincode with histories, after the
  ledger is initialised, an update of \<open>waste1\<close> to \<open>BURNED\<close> succeeds and the stored waste
  has that status. In the chaincode of \<open>waste.go\<close>, a create stores the status of its
  caller, and \<open>InitLedger\<close> alone stores a waste with status \<open>READY\<close>.
\<close>

theorem arbitrary_status_counterexample:
  "statusAt (run [] burnedTxs) ''waste1'' = Some ''BURNED'' \<and>
   statusAt_basic (run_basic [] burnedTxs_basic) ''w1'' = Some ''BURNED'' \<and>
   \<not> validStatus ''BURNED'' \<and>
   statusAt_basic (run_basic [] seedTxs_basic) ''waste1'' = Some ''READY'' \<and>
   \<not> validStatus ''READY''"
  by (simp add: burnedTxs_def commit_def InitLedger_def sampleWastes_def marshalWaste_def
      UpdateWasteStatus_def ReadWaste_PutState Let_def statusAt_def wasteAt_def validStatus_def
      burnedTxs_basic_def seedTxs_basic_def commit_basic_def CreateWaste_basic_def Atoi_def
      isDigit_def digitVal_def parseDate_def daysIn_def saveWaste_def InitLedger_basic_def
      statusAt_basic_def)


text \<open>
  The chaincode of \<open>waste.go\<close> seeds its ledger with a waste whose status is \<open>READY\<close>.
\<close>

lemma InitLedger_basic_status:
  "map_option Waste_basic.Status (map_of (InitLedger_basic now []) ''waste1'') = Some ''READY''"
  by (simp add: InitLedger_basic_def saveWaste_def)

subsection \<open>The quantity of a new waste\<close>

text \<open>
  Claim C8 says that a create with a quantity that is not positive fails and writes nothing.
  \<open>CreateWaste\<close> of the chaincode with histories does not look at the quantity: with
  quantity -5 on the empty ledger it returns no error and writes the waste.
\<close>

theorem CreateWaste_accepts_negative_quantity:
  "CreateWaste exampleClock [] ''w1'' ''Branches'' (Finite (- 5)) ''2025-06-01'' ''farmer1''
       ''Farm'' ''Loc''
     = Inr [(''WASTE_w1'', WasteDoc
         \<lparr>Waste.ID = ''w1'', Type = ''Branches'', Quantity = Finite (- 5),
          HarvestDate = ''2025-06-01'', Status = ''COLLECTED'', Owner = ''farmer1'',
          Farm = ''Farm'', Location = ''Loc'', CreatedAt = ''2025-06-01T10:00:00Z'',
          UpdatedAt = ''2025-06-01T10:00:00Z'',
          History = [\<lparr>Timestamp = ''2025-06-01T10:00:00Z'', Action = ''CREATED'',
                      Actor = ''farmer1'',
                      Details = ''Waste collected: Branches, Quantity: -5.00''\<rparr>]\<rparr>)]"
  by (simp add: CreateWaste_def WasteExists_def GetState_def PutState_def marshalWaste_def
      exampleClock_def fmt_simps)

text \<open>For any finite quantity, of either sign, a create under a fresh id succeeds.\<close>

lemma CreateWaste_ignores_sign:
  assumes "\<not> WasteExists s ident"
  shows "\<exists>s'. CreateWaste now s ident wasteType (Finite q) harvestDate owner farm location
               = Inr s' \<and> map_option Waste.Quantity (wasteAt s' ident) = Some (Finite q)"
  using assms
  by (simp add: CreateWaste_def marshalWaste_def wasteAt_def ReadWaste_PutState
      del: fmt2f.simps)

text \<open>
  The chaincode of \<open>waste.go\<close> does what the claim says: a quantity that is an integer and
  not positive is refused before anything is written.
\<close>

lemma CreateWaste_basic_rejects_nonpositive:
  assumes "ident \<noteq> []" "Atoi quantity = Some qty" "qty \<le> 0"
  shows "CreateWaste_basic now s ident wasteType quantity harvestDate status owner
           = Inl QuantityNotPositive"
  using assms by (simp add: CreateWaste_basic_def)

lemma CreateWaste_basic_example:
  "CreateWaste_basic exampleClock [] ''w1'' ''Branches'' ''-5'' ''2025-06-01'' ''READY'' ''farmer1''
     = Inl QuantityNotPositive"
  "CreateWaste_basic exampleClock [] ''w1'' ''Branches'' ''0'' ''2025-06-01'' ''READY'' ''farmer1''
     = Inl QuantityNotPositive"
  by (simp_all add: CreateWaste_basic_def Atoi_def isDigit_def digitVal_def)

text \<open>
  The handler \<open>addWaste\<close> refuses a quantity that is falsy (0, an empty string, a missing
  field) and accepts a negative one.
\<close>

lemma addWaste_accepts_negative_quantity:
  "statusCode (snd (addWaste exampleRuntime unreachableClient startedWasteController
      (wasteRequest (Num (Finite (- 5)))))) = 201"
  by (simp add: addWaste_def blockchainWasteData_def parseFloat_def wasteRequest_def Let_def
      startedWasteController_def unreachableClient_def)

lemma addWaste_rejects_zero_quantity:
  "statusCode (snd (addWaste exampleRuntime unreachableClient startedWasteController
      (wasteRequest (Num (Finite 0))))) = 400"
  by (simp add: addWaste_def wasteRequest_def Let_def)

section \<open>Properties of the controllers\<close>

lemma sourceOf_listResponse [simp]: "sourceOf (listResponse rt records source) = Str source"
  by (simp add: sourceOf_def listResponse_def)

lemma dataOf_listResponse [simp]: "dataOf (listResponse rt records source) = Arr records"
  by (simp add: dataOf_def listResponse_def)

lemma statusCode_listResponse [simp]: "statusCode (listResponse rt records source) = 200"
  by (simp add: listResponse_def)

lemma listWaste_cases:
  "listWaste rt client st = listResponse rt (tempWastes st) ''temporary'' \<or>
   listWaste rt client st = listResponse rt (tempWastes st) ''fallback'' \<or>
   (\<exists>ws. listWaste rt client st = listResponse rt ws ''blockchain'')"
  by (auto simp: listWaste_def split: sum.splits option.splits)

text \<open>
  The record that \<open>addWaste\<close> builds from the example request, and the error it throws for
  a quantity with no string conversion.
\<close>

lemma exampleWasteRecord_built:
  "blockchainWasteData exampleRuntime (wasteRequest (Num (Finite 50))) = Inr exampleWasteRecord"
  by (simp add: blockchainWasteData_def parseFloat_def exampleRuntime_def wasteRequest_def
      exampleWasteRecord_def newWasteId_def or_js_def Atoi_def isDigit_def digitVal_def
      digit_def Let_def)

lemma noStringValue_thrown:
  "blockchainWasteData exampleRuntime (wasteRequest noStringValue)
     = Inl ''Cannot convert object to primitive value''"
  by (simp add: blockchainWasteData_def parseFloat_def exampleRuntime_def wasteRequest_def
      noStringValue_def Let_def)

text \<open>The record of a request is built exactly when its quantity has a string conversion.\<close>

lemma blockchainWasteData_builds:
  "isl (blockchainWasteData rt reqBody)
     = isl (ToString rt (getProp (getProp reqBody ''wasteData'') ''quantity''))"
  by (simp add: blockchainWasteData_def parseFloat_def Let_def split: sum.splits)

text \<open>What \<open>addWaste\<close> does with a request that passes validation, once the record is built.\<close>

lemma addWaste_valid:
  assumes "validWasteRequest reqBody" "blockchainWasteData rt reqBody = Inr wasteRecord"
  shows "addWaste rt client st reqBody =
     (let wasteId = newWasteId rt;
          newWaste = Obj ((''id'', Str wasteId) # wasteRecord)
      in if wasteController.blockchainInitialized st then
           (case submitTransaction client ''farmer'' ''CreateWaste''
                   [Str wasteId, Str (JSON_stringify rt (Obj wasteRecord))] of
              Inr result \<Rightarrow>
                (st\<lparr>tempWastes := tempWastes st @ [newWaste]\<rparr>,
                 \<lparr>statusCode = 201,
                  body = Obj [(''success'', Bool True),
                              (''message'', Str ''Waste successfully recorded on blockchain''),
                              (''data'', newWaste),
                              (''blockchainTxId'',
                               or_js (optProp result ''transactionId'') (Str ''pending'')),
                              (''source'', Str ''blockchain'')]\<rparr>)
            | Inl message \<Rightarrow>
                (st\<lparr>tempWastes := tempWastes st @ [newWaste]\<rparr>,
                 \<lparr>statusCode = 201,
                  body = Obj [(''success'', Bool True),
                              (''message'',
                               Str ''Waste added to temporary storage (blockchain unavailable)''),
                              (''data'', newWaste),
                              (''warning'',
                               Str (''Blockchain temporarily unavailable: '' @ message)),
                              (''source'', Str ''fallback'')]\<rparr>))
         else
           (st\<lparr>tempWastes := tempWastes st @ [newWaste]\<rparr>,
            \<lparr>statusCode = 201,
             body = Obj [(''success'', Bool True),
                         (''message'',
                          Str ''Waste added to temporary storage (blockchain initializing)''),
                         (''data'', newWaste),
                         (''source'', Str ''temporary'')]\<rparr>))"
  using assms by (simp add: addWaste_def validWasteRequest_def Let_def)

text \<open>
  A request passes validation with any truthy quantity. When that quantity has no string
  conversion, the handler answers 500 whatever the client does, and the temporary array is
  as before.
\<close>

lemma addWaste_thrown:
  assumes "validWasteRequest reqBody" "blockchainWasteData rt reqBody = Inl thrown"
  shows "addWaste rt client st reqBody = (st, internalServerError thrown)"
  using assms by (simp add: addWaste_def validWasteRequest_def Let_def)

subsection \<open>A create while the ledger write fails\<close>

text \<open>
  Claim C2, as the code has it. For a create-waste request that passes validation and whose
  record the handler can build (\<open>parseFloat(quantity)\<close> returns), when the connection flag
  is set and the ledger write throws, the handler still answers 201 with \<open>success = true\<close>
  and source \<open>fallback\<close>, appends the new waste to the temporary array, and any later list
  answer that is served from the temporary array (source \<open>temporary\<close> or \<open>fallback\<close>)
  holds that waste.
\<close>

theorem addWaste_ledger_error:
  assumes "validWasteRequest reqBody"
    and "wasteController.blockchainInitialized st"
    and "blockchainWasteData rt reqBody = Inr wasteRecord"
    and "submitTransaction client ''farmer'' ''CreateWaste''
           [Str (newWasteId rt), Str (JSON_stringify rt (Obj wasteRecord))]
         = Inl message"
  shows "statusCode (snd (addWaste rt client st reqBody)) = 201 \<and>
         getProp (body (snd (addWaste rt client st reqBody))) ''success'' = Bool True \<and>
         sourceOf (snd (addWaste rt client st reqBody)) = Str ''fallback'' \<and>
         dataOf (snd (addWaste rt client st reqBody))
           = Obj ((''id'', Str (newWasteId rt)) # wasteRecord) \<and>
         tempWastes (fst (addWaste rt client st reqBody))
           = tempWastes st @ [Obj ((''id'', Str (newWasteId rt)) # wasteRecord)] \<and>
         (\<forall>rt' client'.
            sourceOf (listWaste rt' client' (fst (addWaste rt client st reqBody))) = Str ''temporary'' \<or>
            sourceOf (listWaste rt' client' (fst (addWaste rt client st reqBody))) = Str ''fallback''
            \<longrightarrow> (\<exists>records.
                   dataOf (listWaste rt' client' (fst (addWaste rt client st reqBody))) = Arr records \<and>
                   Obj ((''id'', Str (newWasteId rt)) # wasteRecord) \<in> set records))"
proof -
  let ?new = "Obj ((''id'', Str (newWasteId rt)) # wasteRecord)"
  let ?r = "addWaste rt client st reqBody"
  have r: "?r = (st\<lparr>tempWastes := tempWastes st @ [?new]\<rparr>,
                 \<lparr>statusCode = 201,
                  body = Obj [(''success'', Bool True),
                              (''message'',
                               Str ''Waste added to temporary storage (blockchain unavailable)''),
                              (''data'', ?new),
                              (''warning'',
                               Str (''Blockchain temporarily unavailable: '' @ message)),
                              (''source'', Str ''fallback'')]\<rparr>)"
    using assms(2,4) by (simp add: addWaste_valid [OF assms(1,3)] Let_def)
  have m: "tempWastes (fst ?r) = tempWastes st @ [?new]" by (simp add: r)
  have l: "\<forall>rt' client'.
            sourceOf (listWaste rt' client' (fst ?r)) = Str ''temporary'' \<or>
            sourceOf (listWaste rt' client' (fst ?r)) = Str ''fallback''
            \<longrightarrow> (\<exists>records. dataOf (listWaste rt' client' (fst ?r)) = Arr records \<and>
                   ?new \<in> set records)"
  proof (intro allI impI)
    fix rt' client'
    assume s: "sourceOf (listWaste rt' client' (fst ?r)) = Str ''temporary'' \<or>
               sourceOf (listWaste rt' client' (fst ?r)) = Str ''fallback''"
    from listWaste_cases [of rt' client' "fst ?r"] s
    have "dataOf (listWaste rt' client' (fst ?r)) = Arr (tempWastes (fst ?r))"
      by auto
    with m show "\<exists>records. dataOf (listWaste rt' client' (fst ?r)) = Arr records \<and>
                   ?new \<in> set records"
      by simp
  qed
  show ?thesis
    using l m by (simp add: r sourceOf_def dataOf_def)
qed

theorem addWaste_ledger_error_witness:
  "validWasteRequest (wasteRequest (Num (Finite 50))) \<and>
   wasteController.blockchainInitialized startedWasteController \<and>
   blockchainWasteData exampleRuntime (wasteRequest (Num (Finite 50))) = Inr exampleWasteRecord \<and>
   submitTransaction unreachableClient ''farmer'' ''CreateWaste''
     [Str (newWasteId exampleRuntime), Str (JSON_stringify exampleRuntime (Obj exampleWasteRecord))]
     = Inl ''connect ECONNREFUSED'' \<and>
   statusCode (snd (addWaste exampleRuntime unreachableClient startedWasteController
                      (wasteRequest (Num (Finite 50))))) = 201 \<and>
   sourceOf (snd (addWaste exampleRuntime unreachableClient startedWasteController
                    (wasteRequest (Num (Finite 50))))) = Str ''fallback'' \<and>
   sourceOf (listWaste exampleRuntime unreachableClient
               (fst (addWaste exampleRuntime unreachableClient startedWasteController
                       (wasteRequest (Num (Finite 50)))))) = Str ''fallback'' \<and>
   dataOf (listWaste exampleRuntime unreachableClient
             (fst (addWaste exampleRuntime unreachableClient startedWasteController
                     (wasteRequest (Num (Finite 50))))))
     = Arr [Obj ((''id'', Str (newWasteId exampleRuntime)) # exampleWasteRecord)]"
proof -
  let ?st = "fst (addWaste exampleRuntime unreachableClient startedWasteController
                       (wasteRequest (Num (Finite 50))))"
  have v: "validWasteRequest (wasteRequest (Num (Finite 50)))"
    by (simp add: validWasteRequest_def wasteRequest_def)
  have i: "wasteController.blockchainInitialized startedWasteController"
    by (simp add: startedWasteController_def)
  have e: "submitTransaction unreachableClient ''farmer'' ''CreateWaste''
     [Str (newWasteId exampleRuntime), Str (JSON_stringify exampleRuntime (Obj exampleWasteRecord))]
     = Inl ''connect ECONNREFUSED''"
    by (simp add: unreachableClient_def)
  note t = addWaste_ledger_error [OF v i exampleWasteRecord_built e]
  have m: "tempWastes ?st = [Obj ((''id'', Str (newWasteId exampleRuntime)) # exampleWasteRecord)]"
    using t by (simp add: startedWasteController_def)
  have f: "wasteController.blockchainInitialized ?st"
    by (simp add: addWaste_valid [OF v exampleWasteRecord_built] startedWasteController_def
        unreachableClient_def Let_def)
  have l: "listWaste exampleRuntime unreachableClient ?st
      = listResponse exampleRuntime (tempWastes ?st) ''fallback''"
    using f by (simp add: listWaste_def unreachableClient_def)
  from t v i e exampleWasteRecord_built show ?thesis by (simp add: l m)
qed

text \<open>
  A request whose quantity is \<open>{"toString": null}\<close> passes validation; with the flag set
  and a client that throws on every call the answer is 500, without \<open>success\<close> or a source,
  and nothing is appended.
\<close>

theorem addWaste_unreadable_quantity_counterexample:
  "validWasteRequest (wasteRequest noStringValue) \<and>
   wasteController.blockchainInitialized startedWasteController \<and>
   submitTransaction unreachableClient ''farmer'' ''CreateWaste''
     [Str (newWasteId exampleRuntime), Str ''{}''] = Inl ''connect ECONNREFUSED'' \<and>
   statusCode (snd (addWaste exampleRuntime unreachableClient startedWasteController
                      (wasteRequest noStringValue))) = 500 \<and>
   getProp (body (snd (addWaste exampleRuntime unreachableClient startedWasteController
                         (wasteRequest noStringValue)))) ''success'' = Undefined \<and>
   sourceOf (snd (addWaste exampleRuntime unreachableClient startedWasteController
                    (wasteRequest noStringValue))) = Undefined \<and>
   tempWastes (fst (addWaste exampleRuntime unreachableClient startedWasteController
                      (wasteRequest noStringValue))) = []"
proof -
  have v: "validWasteRequest (wasteRequest noStringValue)"
    by (simp add: validWasteRequest_def wasteRequest_def noStringValue_def)
  show ?thesis
    by (simp add: v addWaste_thrown [OF v noStringValue_thrown] internalServerError_def
        sourceOf_def startedWasteController_def unreachableClient_def)
qed

subsection \<open>The exported client\<close>

text \<open>
  A method of the exported client throws exactly when its log line cannot be written, and
  then with the error of the conversion.
\<close>

lemma exported_client_throws:
  assumes "join rt '', '' args = Inl thrown"
  shows "submitTransaction (exportedClient rt walletOk dateNow isoNow) orgName functionName args
           = Inl thrown"
    and "query (exportedClient rt walletOk dateNow isoNow) orgName functionName args = Inl thrown"
    and "queryAll (exportedClient rt walletOk dateNow isoNow) orgName functionName args = Inl thrown"
    and "getHistory (exportedClient rt walletOk dateNow isoNow) orgName functionName args = Inl thrown"
  using assms
  by (simp_all add: exportedClient_def exported_submitTransaction_def exported_query_def
      exported_queryAll_def exported_getHistory_def)

text \<open>The answers of the exported client to the queries of the controllers.\<close>

lemma mockClient_queries:
  "queryAll mockClient ''farmer'' ''GetAllWastes'' [] = Inr (Arr [])"
  "queryAll mockClient ''processor'' ''GetAllExtractions'' [] = Inr (Arr [])"
  "queryAll mockClient ''recycler'' ''GetAllRecyclings'' [] = Inr (Arr [])"
  "query mockClient ''processor'' ''GetExtraction'' [Str extractionId] = Inr Null"
  "query mockClient ''recycler'' ''GetRecycling'' [Str recyclingId] = Inr Null"
  "query mockClient ''processor'' ''GetExtractionsByWasteId'' [Str wasteId] = Inr Null"
  by (simp_all add: mockClient_def exportedClient_def exported_queryAll_def exported_query_def)

text \<open>
  Claim C10, as the code has it. With the client class that the module exports: when every
  argument has a string conversion (\<open>args.join(", ")\<close> returns), \<open>submitTransaction\<close>
  returns normally, the queries return the empty list or \<open>null\<close>, and \<open>getHistory\<close>
  returns the empty list; a create request that passes validation while the connection flag
  is set, and whose quantity \<open>parseFloat\<close> can read, is answered 201 with source
  \<open>blockchain\<close>; and no create request at all is answered with source \<open>fallback\<close>.
\<close>

theorem exported_client_never_falls_back:
  "(\<not> isl (join rt '', '' args) \<longrightarrow>
      (\<exists>v. submitTransaction (exportedClient rt walletOk dateNow isoNow) orgName functionName args
             = Inr v) \<and>
      emptyAnswer (query (exportedClient rt walletOk dateNow isoNow) orgName functionName args) \<and>
      emptyAnswer (queryAll (exportedClient rt walletOk dateNow isoNow) orgName functionName args) \<and>
      getHistory (exportedClient rt walletOk dateNow isoNow) orgName functionName args
        = Inr (Arr [])) \<and>
   (wasteController.blockchainInitialized wst \<and> validWasteRequest wreq \<and>
    \<not> isl (parseFloat rt (getProp (getProp wreq ''wasteData'') ''quantity'')) \<longrightarrow>
      statusCode (snd (addWaste rt (exportedClient rt walletOk dateNow isoNow) wst wreq)) = 201 \<and>
      sourceOf (snd (addWaste rt (exportedClient rt walletOk dateNow isoNow) wst wreq))
        = Str ''blockchain'') \<and>
   (extractionController.blockchainInitialized est \<and> validExtractionRequest ereq \<and>
    \<not> isl (parseFloat rt (getProp (getProp ereq ''extractionData'') ''quantity'')) \<longrightarrow>
      statusCode (snd (addExtraction rt (exportedClient rt walletOk dateNow isoNow) est ereq)) = 201 \<and>
      sourceOf (snd (addExtraction rt (exportedClient rt walletOk dateNow isoNow) est ereq))
        = Str ''blockchain'') \<and>
   (recyclingController.blockchainInitialized rst \<and> validRecyclingRequest rreq \<and>
    \<not> isl (parseFloat rt (getProp (getProp rreq ''recyclingData'') ''quantity'')) \<longrightarrow>
      statusCode (snd (addRecycling rt (exportedClient rt walletOk dateNow isoNow) rst rreq)) = 201 \<and>
      sourceOf (snd (addRecycling rt (exportedClient rt walletOk dateNow isoNow) rst rreq))
        = Str ''blockchain'') \<and>
   sourceOf (snd (addWaste rt (exportedClient rt walletOk dateNow isoNow) wst wreq))
     \<noteq> Str ''fallback'' \<and>
   sourceOf (snd (addExtraction rt (exportedClient rt walletOk dateNow isoNow) est ereq))
     \<noteq> Str ''fallback'' \<and>
   sourceOf (snd (addRecycling rt (exportedClient rt walletOk dateNow isoNow) rst rreq))
     \<noteq> Str ''fallback''"
proof (intro conjI impI; (elim conjE)?)
  let ?c = "exportedClient rt walletOk dateNow isoNow"
  {
    assume "\<not> isl (join rt '', '' args)"
    then obtain logged where j: "join rt '', '' args = Inr logged"
      by (cases "join rt '', '' args") auto
    from j show "\<exists>v. submitTransaction ?c orgName functionName args = Inr v"
      by (simp add: exportedClient_def exported_submitTransaction_def)
    from j show "emptyAnswer (query ?c orgName functionName args)"
      by (simp add: exportedClient_def exported_query_def emptyAnswer_def)
    from j show "emptyAnswer (queryAll ?c orgName functionName args)"
      by (simp add: exportedClient_def exported_queryAll_def exported_query_def emptyAnswer_def)
    from j show "getHistory ?c orgName functionName args = Inr (Arr [])"
      by (simp add: exportedClient_def exported_getHistory_def)
  }
  {
    assume a: "wasteController.blockchainInitialized wst" "validWasteRequest wreq"
      "\<not> isl (parseFloat rt (getProp (getProp wreq ''wasteData'') ''quantity''))"
    from a(3) obtain q where
      q: "parseFloat rt (getProp (getProp wreq ''wasteData'') ''quantity'') = Inr q"
      by (cases "parseFloat rt (getProp (getProp wreq ''wasteData'') ''quantity'')") auto
    from a(1,2) q show "statusCode (snd (addWaste rt ?c wst wreq)) = 201"
      "sourceOf (snd (addWaste rt ?c wst wreq)) = Str ''blockchain''"
      by (simp_all add: addWaste_def blockchainWasteData_def validWasteRequest_def Let_def
          exportedClient_def exported_submitTransaction_def sourceOf_def)
  }
  {
    assume a: "extractionController.blockchainInitialized est" "validExtractionRequest ereq"
      "\<not> isl (parseFloat rt (getProp (getProp ereq ''extractionData'') ''quantity''))"
    from a(3) obtain q where
      q: "parseFloat rt (getProp (getProp ereq ''extractionData'') ''quantity'') = Inr q"
      by (cases "parseFloat rt (getProp (getProp ereq ''extractionData'') ''quantity'')") auto
    from a(1,2) q show "statusCode (snd (addExtraction rt ?c est ereq)) = 201"
      "sourceOf (snd (addExtraction rt ?c est ereq)) = Str ''blockchain''"
      by (simp_all add: addExtraction_def validExtractionRequest_def Let_def
          exportedClient_def exported_submitTransaction_def sourceOf_def)
  }
  {
    assume a: "recyclingController.blockchainInitialized rst" "validRecyclingRequest rreq"
      "\<not> isl (parseFloat rt (getProp (getProp rreq ''recyclingData'') ''quantity''))"
    from a(3) obtain q where
      q: "parseFloat rt (getProp (getProp rreq ''recyclingData'') ''quantity'') = Inr q"
      by (cases "parseFloat rt (getProp (getProp rreq ''recyclingData'') ''quantity'')") auto
    from a(1,2) q show "statusCode (snd (addRecycling rt ?c rst rreq)) = 201"
      "sourceOf (snd (addRecycling rt ?c rst rreq)) = Str ''blockchain''"
      by (simp_all add: addRecycling_def validRecyclingRequest_def Let_def
          exportedClient_def exported_submitTransaction_def sourceOf_def)
  }
  show "sourceOf (snd (addWaste rt ?c wst wreq)) \<noteq> Str ''fallback''"
    by (simp add: addWaste_def Let_def exportedClient_def exported_submitTransaction_def
        sourceOf_def internalServerError_def split: sum.splits)
  show "sourceOf (snd (addExtraction rt ?c est ereq)) \<noteq> Str ''fallback''"
    by (simp add: addExtraction_def Let_def exportedClient_def exported_submitTransaction_def
        sourceOf_def internalServerError_def split: sum.splits)
  show "sourceOf (snd (addRecycling rt ?c rst rreq)) \<noteq> Str ''fallback''"
    by (simp add: addRecycling_def Let_def exportedClient_def exported_submitTransaction_def
        sourceOf_def internalServerError_def split: sum.splits)
qed

theorem exported_client_never_falls_back_witness:
  "\<not> isl (join exampleRuntime '', '' [Str ''WASTE_1'']) \<and>
   emptyAnswer (query mockClient ''farmer'' ''GetWaste'' [Str ''WASTE_1'']) \<and>
   wasteController.blockchainInitialized startedWasteController \<and>
   validWasteRequest (wasteRequest (Num (Finite 50))) \<and>
   \<not> isl (parseFloat exampleRuntime
            (getProp (getProp (wasteRequest (Num (Finite 50))) ''wasteData'') ''quantity'')) \<and>
   sourceOf (snd (addWaste exampleRuntime mockClient startedWasteController
                    (wasteRequest (Num (Finite 50))))) = Str ''blockchain'' \<and>
   extractionController.blockchainInitialized startedExtractionController \<and>
   validExtractionRequest extractionRequest \<and>
   \<not> isl (parseFloat exampleRuntime
            (getProp (getProp extractionRequest ''extractionData'') ''quantity'')) \<and>
   sourceOf (snd (addExtraction exampleRuntime mockClient startedExtractionController
                    extractionRequest)) = Str ''blockchain'' \<and>
   recyclingController.blockchainInitialized startedRecyclingController \<and>
   validRecyclingRequest recyclingRequest \<and>
   \<not> isl (parseFloat exampleRuntime
            (getProp (getProp recyclingRequest ''recyclingData'') ''quantity'')) \<and>
   sourceOf (snd (addRecycling exampleRuntime mockClient startedRecyclingController
                    recyclingRequest)) = Str ''blockchain''"
proof -
  have j: "\<not> isl (join exampleRuntime '', '' [Str ''WASTE_1''])"
    by simp
  have w: "wasteController.blockchainInitialized startedWasteController"
    "validWasteRequest (wasteRequest (Num (Finite 50)))"
    "\<not> isl (parseFloat exampleRuntime
            (getProp (getProp (wasteRequest (Num (Finite 50))) ''wasteData'') ''quantity''))"
    by (simp_all add: startedWasteController_def validWasteRequest_def wasteRequest_def
        parseFloat_def)
  have e: "extractionController.blockchainInitialized startedExtractionController"
    "validExtractionRequest extractionRequest"
    "\<not> isl (parseFloat exampleRuntime
            (getProp (getProp extractionRequest ''extractionData'') ''quantity''))"
    by (simp_all add: startedExtractionController_def validExtractionRequest_def
        extractionRequest_def parseFloat_def)
  have r: "recyclingController.blockchainInitialized startedRecyclingController"
    "validRecyclingRequest recyclingRequest"
    "\<not> isl (parseFloat exampleRuntime
            (getProp (getProp recyclingRequest ''recyclingData'') ''quantity''))"
    by (simp_all add: startedRecyclingController_def validRecyclingRequest_def
        recyclingRequest_def parseFloat_def)
  note t = exported_client_never_falls_back [where rt = exampleRuntime
      and args = "[Str ''WASTE_1'']" and walletOk = True and dateNow = "''1748772000001''"
      and isoNow = "''2025-06-01T10:00:00.001Z''" and orgName = "''farmer''"
      and functionName = "''GetWaste''" and wst = startedWasteController
      and wreq = "wasteRequest (Num (Finite 50))" and est = startedExtractionController
      and ereq = extractionRequest and rst = startedRecyclingController
      and rreq = recyclingRequest, folded mockClient_def]
  from t j have 0: "emptyAnswer (query mockClient ''farmer'' ''GetWaste'' [Str ''WASTE_1''])"
    by blast
  from t w have 1: "sourceOf (snd (addWaste exampleRuntime mockClient startedWasteController
                    (wasteRequest (Num (Finite 50))))) = Str ''blockchain''"
    by blast
  from t e have 2: "sourceOf (snd (addExtraction exampleRuntime mockClient
                    startedExtractionController extractionRequest)) = Str ''blockchain''"
    by blast
  from t r have 3: "sourceOf (snd (addRecycling exampleRuntime mockClient
                    startedRecyclingController recyclingRequest)) = Str ''blockchain''"
    by blast
  show ?thesis
    by (intro conjI j w e r 0 1 2 3)
qed

text \<open>
  The method does throw, and a valid create is not always answered from the ledger. A
  create-extraction request whose waste id is \<open>{"toString": null}\<close> passes validation, and
  the call that links the extraction to that waste throws from its log line. A create-waste
  request whose quantity is that value passes validation and is answered 500, with no source.
\<close>

theorem exported_client_throws_counterexample:
  "validExtractionRequest (extractionRequestFor noStringValue) \<and>
   submitTransaction mockClient ''processor'' ''LinkExtractionToWaste''
     [noStringValue, Str ''EXTRACTION_1748772000000_k3j9x0q2a'']
     = Inl ''Cannot convert object to primitive value'' \<and>
   validWasteRequest (wasteRequest noStringValue) \<and>
   wasteController.blockchainInitialized startedWasteController \<and>
   statusCode (snd (addWaste exampleRuntime mockClient startedWasteController
                      (wasteRequest noStringValue))) = 500 \<and>
   sourceOf (snd (addWaste exampleRuntime mockClient startedWasteController
                    (wasteRequest noStringValue))) = Undefined"
proof -
  have v: "validWasteRequest (wasteRequest noStringValue)"
    by (simp add: validWasteRequest_def wasteRequest_def noStringValue_def)
  have e: "validExtractionRequest (extractionRequestFor noStringValue)"
    by (simp add: validExtractionRequest_def extractionRequestFor_def noStringValue_def)
  have s: "submitTransaction mockClient ''processor'' ''LinkExtractionToWaste''
     [noStringValue, Str ''EXTRACTION_1748772000000_k3j9x0q2a'']
     = Inl ''Cannot convert object to primitive value''"
    by (simp add: mockClient_def exportedClient_def exported_submitTransaction_def
        noStringValue_def exampleRuntime_def)
  show ?thesis
    by (simp add: v e s addWaste_thrown [OF v noStringValue_thrown] internalServerError_def
        sourceOf_def startedWasteController_def)
qed

text \<open>
  The handler catches the error of the link call: the extraction of that request is still
  answered with source \<open>blockchain\<close>.
\<close>

lemma addExtraction_link_example:
  "sourceOf (snd (addExtraction exampleRuntime mockClient startedExtractionController
                    (extractionRequestFor noStringValue))) = Str ''blockchain''"
  by (simp add: addExtraction_def extractionRequestFor_def noStringValue_def Let_def
      parseFloat_def startedExtractionController_def mockClient_def exportedClient_def
      exported_submitTransaction_def sourceOf_def)

text \<open>
  With the exported client the connection flag is set at start-up whether or not the wallet
  could be opened.
\<close>

lemma initializeBlockchain_exported:
  "wasteController.blockchainInitialized
     (initializeBlockchain (exportedClient rt walletOk dateNow isoNow) st)"
  by (simp add: initializeBlockchain_def exportedClient_def exported_initialize_def)

subsection \<open>Reads when the ledger has nothing\<close>

lemma fromLedger_Null: "fromLedger rt (Inr Null) = None"
  by (simp add: fromLedger_def)

text \<open>
  Claim C5, as the code has it. With the connection flag set: a list read whose ledger call
  returns the empty list or \<open>null\<close> answers with the whole temporary array and source
  \<open>temporary\<close>; a by-id read (of a non-empty id) whose ledger call returns \<open>null\<close>
  answers with the record of the temporary array that has the id, and source \<open>fallback\<close>,
  when there is such a record, and answers 404 with neither data nor source when there is
  none.
\<close>

theorem reads_on_empty_ledger_answer:
  "(wasteController.blockchainInitialized wst \<and>
    emptyAnswer (queryAll client ''farmer'' ''GetAllWastes'' []) \<longrightarrow>
      statusCode (listWaste rt client wst) = 200 \<and>
      dataOf (listWaste rt client wst) = Arr (tempWastes wst) \<and>
      sourceOf (listWaste rt client wst) = Str ''temporary'') \<and>
   (extractionController.blockchainInitialized est \<and>
    emptyAnswer (queryAll client ''processor'' ''GetAllExtractions'' []) \<longrightarrow>
      statusCode (listExtractions rt client est) = 200 \<and>
      dataOf (listExtractions rt client est) = Arr (extractions est) \<and>
      sourceOf (listExtractions rt client est) = Str ''temporary'') \<and>
   (recyclingController.blockchainInitialized rst \<and>
    emptyAnswer (queryAll client ''recycler'' ''GetAllRecyclings'' []) \<longrightarrow>
      statusCode (listRecyclings rt client rst) = 200 \<and>
      dataOf (listRecyclings rt client rst) = Arr (recyclings rst) \<and>
      sourceOf (listRecyclings rt client rst) = Str ''temporary'') \<and>
   (extractionController.blockchainInitialized est \<and> extractionId \<noteq> [] \<and>
    query client ''processor'' ''GetExtraction'' [Str extractionId] = Inr Null \<longrightarrow>
      (case find (\<lambda>e. getProp e ''id'' = Str extractionId
                         \<or> getProp e ''extractionId'' = Str extractionId) (extractions est) of
         Some extraction \<Rightarrow>
           statusCode (getExtractionById rt client est extractionId) = 200 \<and>
           dataOf (getExtractionById rt client est extractionId) = extraction \<and>
           sourceOf (getExtractionById rt client est extractionId) = Str ''fallback''
       | None \<Rightarrow>
           statusCode (getExtractionById rt client est extractionId) = 404 \<and>
           dataOf (getExtractionById rt client est extractionId) = Undefined \<and>
           sourceOf (getExtractionById rt client est extractionId) = Undefined)) \<and>
   (recyclingController.blockchainInitialized rst \<and> recyclingId \<noteq> [] \<and>
    query client ''recycler'' ''GetRecycling'' [Str recyclingId] = Inr Null \<longrightarrow>
      (case find (\<lambda>r. getProp r ''id'' = Str recyclingId
                         \<or> getProp r ''recyclingId'' = Str recyclingId) (recyclings rst) of
         Some recycling \<Rightarrow>
           statusCode (getRecyclingById rt client rst recyclingId) = 200 \<and>
           dataOf (getRecyclingById rt client rst recyclingId) = recycling \<and>
           sourceOf (getRecyclingById rt client rst recyclingId) = Str ''fallback''
       | None \<Rightarrow>
           statusCode (getRecyclingById rt client rst recyclingId) = 404 \<and>
           dataOf (getRecyclingById rt client rst recyclingId) = Undefined \<and>
           sourceOf (getRecyclingById rt client rst recyclingId) = Undefined))"
proof (intro conjI impI; elim conjE)
  assume "wasteController.blockchainInitialized wst"
    "emptyAnswer (queryAll client ''farmer'' ''GetAllWastes'' [])"
  then have "listWaste rt client wst = listResponse rt (tempWastes wst) ''temporary''"
    by (auto simp: listWaste_def emptyAnswer_def)
  then show "statusCode (listWaste rt client wst) = 200"
    "dataOf (listWaste rt client wst) = Arr (tempWastes wst)"
    "sourceOf (listWaste rt client wst) = Str ''temporary''"
    by simp_all
next
  assume "extractionController.blockchainInitialized est"
    "emptyAnswer (queryAll client ''processor'' ''GetAllExtractions'' [])"
  then have "listExtractions rt client est = listResponse rt (extractions est) ''temporary''"
    by (auto simp: listExtractions_def emptyAnswer_def)
  then show "statusCode (listExtractions rt client est) = 200"
    "dataOf (listExtractions rt client est) = Arr (extractions est)"
    "sourceOf (listExtractions rt client est) = Str ''temporary''"
    by simp_all
next
  assume "recyclingController.blockchainInitialized rst"
    "emptyAnswer (queryAll client ''recycler'' ''GetAllRecyclings'' [])"
  then have "listRecyclings rt client rst = listResponse rt (recyclings rst) ''temporary''"
    by (auto simp: listRecyclings_def emptyAnswer_def)
  then show "statusCode (listRecyclings rt client rst) = 200"
    "dataOf (listRecyclings rt client rst) = Arr (recyclings rst)"
    "sourceOf (listRecyclings rt client rst) = Str ''temporary''"
    by simp_all
next
  assume "extractionController.blockchainInitialized est" "extractionId \<noteq> []"
    "query client ''processor'' ''GetExtraction'' [Str extractionId] = Inr Null"
  then show "case find (\<lambda>e. getProp e ''id'' = Str extractionId
                         \<or> getProp e ''extractionId'' = Str extractionId) (extractions est) of
         Some extraction \<Rightarrow>
           statusCode (getExtractionById rt client est extractionId) = 200 \<and>
           dataOf (getExtractionById rt client est extractionId) = extraction \<and>
           sourceOf (getExtractionById rt client est extractionId) = Str ''fallback''
       | None \<Rightarrow>
           statusCode (getExtractionById rt client est extractionId) = 404 \<and>
           dataOf (getExtractionById rt client est extractionId) = Undefined \<and>
           sourceOf (getExtractionById rt client est extractionId) = Undefined"
    by (simp add: getExtractionById_def fromLedger_Null dataOf_def sourceOf_def
        split: option.splits)
next
  assume "recyclingController.blockchainInitialized rst" "recyclingId \<noteq> []"
    "query client ''recycler'' ''GetRecycling'' [Str recyclingId] = Inr Null"
  then show "case find (\<lambda>r. getProp r ''id'' = Str recyclingId
                         \<or> getProp r ''recyclingId'' = Str recyclingId) (recyclings rst) of
         Some recycling \<Rightarrow>
           statusCode (getRecyclingById rt client rst recyclingId) = 200 \<and>
           dataOf (getRecyclingById rt client rst recyclingId) = recycling \<and>
           sourceOf (getRecyclingById rt client rst recyclingId) = Str ''fallback''
       | None \<Rightarrow>
           statusCode (getRecyclingById rt client rst recyclingId) = 404 \<and>
           dataOf (getRecyclingById rt client rst recyclingId) = Undefined \<and>
           sourceOf (getRecyclingById rt client rst recyclingId) = Undefined"
    by (simp add: getRecyclingById_def fromLedger_Null dataOf_def sourceOf_def
        split: option.splits)
qed

theorem reads_on_empty_ledger_answer_witness:
  "wasteController.blockchainInitialized startedWasteController \<and>
   emptyAnswer (queryAll mockClient ''farmer'' ''GetAllWastes'' []) \<and>
   sourceOf (listWaste exampleRuntime mockClient startedWasteController) = Str ''temporary'' \<and>
   dataOf (listWaste exampleRuntime mockClient startedWasteController)
     = Arr (tempWastes startedWasteController) \<and>
   extractionController.blockchainInitialized startedExtractionController \<and>
   emptyAnswer (queryAll mockClient ''processor'' ''GetAllExtractions'' []) \<and>
   sourceOf (listExtractions exampleRuntime mockClient startedExtractionController)
     = Str ''temporary'' \<and>
   dataOf (listExtractions exampleRuntime mockClient startedExtractionController)
     = Arr (extractions startedExtractionController) \<and>
   recyclingController.blockchainInitialized startedRecyclingController \<and>
   emptyAnswer (queryAll mockClient ''recycler'' ''GetAllRecyclings'' []) \<and>
   sourceOf (listRecyclings exampleRuntime mockClient startedRecyclingController)
     = Str ''temporary'' \<and>
   dataOf (listRecyclings exampleRuntime mockClient startedRecyclingController)
     = Arr (recyclings startedRecyclingController) \<and>
   query mockClient ''processor'' ''GetExtraction'' [Str ''EXTRACTION_DEFAULT_1''] = Inr Null \<and>
   dataOf (getExtractionById exampleRuntime mockClient startedExtractionController
             ''EXTRACTION_DEFAULT_1'') = hd (extractions startedExtractionController) \<and>
   sourceOf (getExtractionById exampleRuntime mockClient startedExtractionController
               ''EXTRACTION_DEFAULT_1'') = Str ''fallback'' \<and>
   query mockClient ''processor'' ''GetExtraction'' [Str ''EXTRACTION_X''] = Inr Null \<and>
   statusCode (getExtractionById exampleRuntime mockClient startedExtractionController
                 ''EXTRACTION_X'') = 404 \<and>
   sourceOf (getExtractionById exampleRuntime mockClient startedExtractionController
               ''EXTRACTION_X'') = Undefined \<and>
   query mockClient ''recycler'' ''GetRecycling'' [Str ''RECYCLING_DEFAULT_1''] = Inr Null \<and>
   dataOf (getRecyclingById exampleRuntime mockClient startedRecyclingController
             ''RECYCLING_DEFAULT_1'') = hd (recyclings startedRecyclingController) \<and>
   sourceOf (getRecyclingById exampleRuntime mockClient startedRecyclingController
               ''RECYCLING_DEFAULT_1'') = Str ''fallback'' \<and>
   query mockClient ''recycler'' ''GetRecycling'' [Str ''RECYCLING_X''] = Inr Null \<and>
   statusCode (getRecyclingById exampleRuntime mockClient startedRecyclingController
                 ''RECYCLING_X'') = 404 \<and>
   sourceOf (getRecyclingById exampleRuntime mockClient startedRecyclingController
               ''RECYCLING_X'') = Undefined"
proof -
  have w: "wasteController.blockchainInitialized startedWasteController"
    by (simp add: startedWasteController_def)
  have e: "extractionController.blockchainInitialized startedExtractionController"
    by (simp add: startedExtractionController_def)
  have r: "recyclingController.blockchainInitialized startedRecyclingController"
    by (simp add: startedRecyclingController_def)
  have qw: "emptyAnswer (queryAll mockClient ''farmer'' ''GetAllWastes'' [])"
    and qe: "emptyAnswer (queryAll mockClient ''processor'' ''GetAllExtractions'' [])"
    and qr: "emptyAnswer (queryAll mockClient ''recycler'' ''GetAllRecyclings'' [])"
    by (simp_all add: mockClient_queries emptyAnswer_def)
  have ne: "''EXTRACTION_DEFAULT_1'' \<noteq> []" "''EXTRACTION_X'' \<noteq> []"
    and nr: "''RECYCLING_DEFAULT_1'' \<noteq> []" "''RECYCLING_X'' \<noteq> []"
    by simp_all
  note ge = mockClient_queries(4) [of "''EXTRACTION_DEFAULT_1''"]
  note gx = mockClient_queries(4) [of "''EXTRACTION_X''"]
  note gr = mockClient_queries(5) [of "''RECYCLING_DEFAULT_1''"]
  note gy = mockClient_queries(5) [of "''RECYCLING_X''"]
  have fe: "find (\<lambda>e. getProp e ''id'' = Str ''EXTRACTION_DEFAULT_1''
              \<or> getProp e ''extractionId'' = Str ''EXTRACTION_DEFAULT_1'')
      (extractions startedExtractionController)
     = Some (hd (extractions startedExtractionController))"
    and fx: "find (\<lambda>e. getProp e ''id'' = Str ''EXTRACTION_X''
              \<or> getProp e ''extractionId'' = Str ''EXTRACTION_X'')
      (extractions startedExtractionController) = None"
    by (simp_all add: startedExtractionController_def initialExtractions_def)
  have fr: "find (\<lambda>r. getProp r ''id'' = Str ''RECYCLING_DEFAULT_1''
              \<or> getProp r ''recyclingId'' = Str ''RECYCLING_DEFAULT_1'')
      (recyclings startedRecyclingController)
     = Some (hd (recyclings startedRecyclingController))"
    and fy: "find (\<lambda>r. getProp r ''id'' = Str ''RECYCLING_X''
              \<or> getProp r ''recyclingId'' = Str ''RECYCLING_X'')
      (recyclings startedRecyclingController) = None"
    by (simp_all add: startedRecyclingController_def initialRecyclings_def)
  note t = reads_on_empty_ledger_answer [where wst = startedWasteController
      and client = mockClient and rt = exampleRuntime and est = startedExtractionController
      and rst = startedRecyclingController and extractionId = "''EXTRACTION_DEFAULT_1''"
      and recyclingId = "''RECYCLING_DEFAULT_1''"]
  note u = reads_on_empty_ledger_answer [where wst = startedWasteController
      and client = mockClient and rt = exampleRuntime and est = startedExtractionController
      and rst = startedRecyclingController and extractionId = "''EXTRACTION_X''"
      and recyclingId = "''RECYCLING_X''"]
  from t w qw
  have 1: "sourceOf (listWaste exampleRuntime mockClient startedWasteController)
             = Str ''temporary''"
    "dataOf (listWaste exampleRuntime mockClient startedWasteController)
       = Arr (tempWastes startedWasteController)"
    by blast+
  from t e qe
  have 2: "sourceOf (listExtractions exampleRuntime mockClient startedExtractionController)
             = Str ''temporary''"
    "dataOf (listExtractions exampleRuntime mockClient startedExtractionController)
       = Arr (extractions startedExtractionController)"
    by blast+
  from t r qr
  have 3: "sourceOf (listRecyclings exampleRuntime mockClient startedRecyclingController)
             = Str ''temporary''"
    "dataOf (listRecyclings exampleRuntime mockClient startedRecyclingController)
       = Arr (recyclings startedRecyclingController)"
    by blast+
  from t e ne(1) ge
  have 4: "dataOf (getExtractionById exampleRuntime mockClient startedExtractionController
                     ''EXTRACTION_DEFAULT_1'') = hd (extractions startedExtractionController)"
    "sourceOf (getExtractionById exampleRuntime mockClient startedExtractionController
                 ''EXTRACTION_DEFAULT_1'') = Str ''fallback''"
    by (simp_all add: fe)
  from u e ne(2) gx
  have 5: "statusCode (getExtractionById exampleRuntime mockClient startedExtractionController
                 ''EXTRACTION_X'') = 404"
    "sourceOf (getExtractionById exampleRuntime mockClient startedExtractionController
               ''EXTRACTION_X'') = Undefined"
    by (simp_all add: fx)
  from t r nr(1) gr
  have 6: "dataOf (getRecyclingById exampleRuntime mockClient startedRecyclingController
                     ''RECYCLING_DEFAULT_1'') = hd (recyclings startedRecyclingController)"
    "sourceOf (getRecyclingById exampleRuntime mockClient startedRecyclingController
                 ''RECYCLING_DEFAULT_1'') = Str ''fallback''"
    by (simp_all add: fr)
  from u r nr(2) gy
  have 7: "statusCode (getRecyclingById exampleRuntime mockClient startedRecyclingController
                 ''RECYCLING_X'') = 404"
    "sourceOf (getRecyclingById exampleRuntime mockClient startedRecyclingController
               ''RECYCLING_X'') = Undefined"
    by (simp_all add: fy)
  show ?thesis
    by (intro conjI w e r qw qe qr ge gx gr gy 1 2 3 4 5 6 7)
qed

text \<open>
  An empty list is truthy: a by-id read whose ledger call returns the empty list answers with
  that list as ledger data.
\<close>

lemma by_id_empty_list:
  assumes "extractionController.blockchainInitialized est" "extractionId \<noteq> []"
    "query client ''processor'' ''GetExtraction'' [Str extractionId] = Inr (Arr [])"
  shows "dataOf (getExtractionById rt client est extractionId) = Arr []"
    and "sourceOf (getExtractionById rt client est extractionId) = Str ''blockchain''"
  using assms
  by (simp_all add: getExtractionById_def fromLedger_def dataOf_def sourceOf_def)

text \<open>
  The extraction \<open>EXTRACTION_DEFAULT_1\<close> of the temporary array, read by id through the
  exported client (whose answer is \<open>null\<close>), comes back with source \<open>fallback\<close>, not
  \<open>temporary\<close>.
\<close>

theorem by_id_label_counterexample:
  "extractionController.blockchainInitialized startedExtractionController \<and>
   query mockClient ''processor'' ''GetExtraction'' [Str ''EXTRACTION_DEFAULT_1''] = Inr Null \<and>
   statusCode (getExtractionById exampleRuntime mockClient startedExtractionController
                 ''EXTRACTION_DEFAULT_1'') = 200 \<and>
   sourceOf (getExtractionById exampleRuntime mockClient startedExtractionController
               ''EXTRACTION_DEFAULT_1'') = Str ''fallback'' \<and>
   sourceOf (getExtractionById exampleRuntime mockClient startedExtractionController
               ''EXTRACTION_DEFAULT_1'') \<noteq> Str ''temporary''"
  by (simp add: startedExtractionController_def mockClient_queries
      getExtractionById_def fromLedger_def initialExtractions_def sourceOf_def)

text \<open>
  The by-waste reads have no branch for an empty answer: the handler then answers with the
  empty list, whatever the temporary array holds.
\<close>

lemma by_waste_empty_answer:
  assumes "extractionController.blockchainInitialized est" "wasteId \<noteq> []"
    "emptyAnswer (query client ''processor'' ''GetExtractionsByWasteId'' [Str wasteId])"
  shows "dataOf (getExtractionsByWasteId rt client est wasteId) = Arr []"
    and "sourceOf (getExtractionsByWasteId rt client est wasteId) = Str ''temporary''"
  using assms
  by (auto simp: getExtractionsByWasteId_def emptyAnswer_def byWasteResponse_def dataOf_def
      sourceOf_def)

lemma by_waste_example:
  "dataOf (getExtractionsByWasteId exampleRuntime mockClient startedExtractionController
             ''WASTE_DEFAULT_1'') = Arr [] \<and>
   filter (\<lambda>e. getProp e ''wasteId'' = Str ''WASTE_DEFAULT_1'')
      (extractions startedExtractionController) \<noteq> []"
  by (simp add: startedExtractionController_def mockClient_queries
      getExtractionsByWasteId_def byWasteResponse_def initialExtractions_def dataOf_def)

end
